theory Spec2Isabelle
  imports Main "HOL-Library.Log_Nat"
begin

section \<open>JavaScript numbers\<close>

text \<open>
  Every \<open>number\<close> of App.tsx is an IEEE 754 binary64 value. A value is NaN, an
  infinity with its sign, or a finite value given by its sign (\<open>True\<close> is negative) and its
  magnitude, so that both zeros exist. Arithmetic computes the exact rational result and
  rounds it to the nearest representable magnitude, ties to the even significand.
\<close>

datatype jsnum = NaN | Inf bool | Fin bool rat

definition pow2 :: "int \<Rightarrow> rat" where
  "pow2 e = (if 0 \<le> e then 2 ^ nat e else 1 / 2 ^ nat (- e))"

definition ilog2 :: "rat \<Rightarrow> int" where
  \<comment> \<open>For \<open>0 < q\<close>: the exponent \<open>e\<close> with \<open>2 ^ e \<le> q < 2 ^ (e + 1)\<close>.\<close>
  "ilog2 q = (case quotient_of q of (a, b) \<Rightarrow>
     (let k = bitlen a - bitlen b in if pow2 k \<le> q then k else k - 1))"

definition round_half_even :: "rat \<Rightarrow> int" where
  "round_half_even q =
     (let f = \<lfloor>q\<rfloor>; d = q - of_int f
      in if d < 1 / 2 then f else if 1 / 2 < d then f + 1 else if even f then f else f + 1)"

definition round_mag :: "rat \<Rightarrow> rat option" where
  \<comment> \<open>Rounds a magnitude to binary64: 53 significant bits, the exponent of the unit in
      the last place not below \<open>-1074\<close> (subnormals); \<open>None\<close> is overflow, when the
      rounded value reaches \<open>2 ^ 1024\<close>.\<close>
  "round_mag q =
     (if q = 0 then Some 0
      else let e = max (ilog2 q) (- 1022);
               ulp = pow2 (e - 52);
               m = round_half_even (q / ulp)
           in if 1023 < e \<or> (e = 1023 \<and> m = 2 ^ 53) then None else Some (of_int m * ulp))"

definition js_round :: "bool \<Rightarrow> rat \<Rightarrow> jsnum" where
  "js_round s q = (case round_mag q of None \<Rightarrow> Inf s | Some r \<Rightarrow> Fin s r)"

definition lit :: "rat \<Rightarrow> jsnum" where
  \<comment> \<open>A decimal literal of the source: the nearest binary64 value.\<close>
  "lit q = js_round False q"

fun is_double :: "jsnum \<Rightarrow> bool" where
  "is_double NaN = True"
| "is_double (Inf s) = True"
| "is_double (Fin s m) = (0 \<le> m \<and> round_mag m = Some m)"

definition sval :: "bool \<Rightarrow> rat \<Rightarrow> rat" where
  "sval s m = (if s then - m else m)"

fun js_neg :: "jsnum \<Rightarrow> jsnum" where
  "js_neg NaN = NaN"
| "js_neg (Inf s) = Inf (\<not> s)"
| "js_neg (Fin s m) = Fin (\<not> s) m"

fun js_add :: "jsnum \<Rightarrow> jsnum \<Rightarrow> jsnum" where
  "js_add NaN y = NaN"
| "js_add x NaN = NaN"
| "js_add (Inf s) (Inf t) = (if s = t then Inf s else NaN)"
| "js_add (Inf s) (Fin t n) = Inf s"
| "js_add (Fin s m) (Inf t) = Inf t"
| "js_add (Fin s m) (Fin t n) =
     (let r = sval s m + sval t n
      in if r = 0 then Fin (s \<and> t) 0 else js_round (r < 0) \<bar>r\<bar>)"

definition js_sub :: "jsnum \<Rightarrow> jsnum \<Rightarrow> jsnum" where
  "js_sub x y = js_add x (js_neg y)"

fun js_mul :: "jsnum \<Rightarrow> jsnum \<Rightarrow> jsnum" where
  "js_mul NaN y = NaN"
| "js_mul x NaN = NaN"
| "js_mul (Inf s) (Inf t) = Inf (s \<noteq> t)"
| "js_mul (Inf s) (Fin t n) = (if n = 0 then NaN else Inf (s \<noteq> t))"
| "js_mul (Fin s m) (Inf t) = (if m = 0 then NaN else Inf (s \<noteq> t))"
| "js_mul (Fin s m) (Fin t n) = js_round (s \<noteq> t) (m * n)"

fun js_div :: "jsnum \<Rightarrow> jsnum \<Rightarrow> jsnum" where
  "js_div NaN y = NaN"
| "js_div x NaN = NaN"
| "js_div (Inf s) (Inf t) = NaN"
| "js_div (Inf s) (Fin t n) = Inf (s \<noteq> t)"
| "js_div (Fin s m) (Inf t) = Fin (s \<noteq> t) 0"
| "js_div (Fin s m) (Fin t n) =
     (if n = 0 then (if m = 0 then NaN else Inf (s \<noteq> t))
      else js_round (s \<noteq> t) (m / n))"

fun js_lt :: "jsnum \<Rightarrow> jsnum \<Rightarrow> bool" where
  "js_lt NaN y = False"
| "js_lt x NaN = False"
| "js_lt (Inf s) (Inf t) = (s \<and> \<not> t)"
| "js_lt (Inf s) (Fin t n) = s"
| "js_lt (Fin s m) (Inf t) = (\<not> t)"
| "js_lt (Fin s m) (Fin t n) = (sval s m < sval t n)"

fun js_le :: "jsnum \<Rightarrow> jsnum \<Rightarrow> bool" where
  "js_le NaN y = False"
| "js_le x NaN = False"
| "js_le (Inf s) (Inf t) = (s \<or> \<not> t)"
| "js_le (Inf s) (Fin t n) = s"
| "js_le (Fin s m) (Inf t) = (\<not> t)"
| "js_le (Fin s m) (Fin t n) = (sval s m \<le> sval t n)"

fun is_neg_zero :: "jsnum \<Rightarrow> bool" where
  "is_neg_zero (Fin s m) = (s \<and> m = 0)"
| "is_neg_zero x = False"

definition Math_max :: "jsnum \<Rightarrow> jsnum \<Rightarrow> jsnum" where
  \<comment> \<open>\<open>Math.max(x, y)\<close>: NaN if either is NaN; \<open>+0\<close> counts as larger than \<open>-0\<close>.
      Of two equal values other than zeros it returns the second: they cannot be told
      apart.\<close>
  "Math_max x y =
     (if x = NaN \<or> y = NaN then NaN
      else if js_lt x y then y
      else if js_lt y x then x
      else if is_neg_zero y then x else y)"

definition Math_min :: "jsnum \<Rightarrow> jsnum \<Rightarrow> jsnum" where
  \<comment> \<open>\<open>Math.min(x, y)\<close>: NaN if either is NaN; \<open>-0\<close> counts as smaller than \<open>+0\<close>.
      Of two equal values other than zeros it returns the second: they cannot be told
      apart.\<close>
  "Math_min x y =
     (if x = NaN \<or> y = NaN then NaN
      else if js_lt x y then x
      else if js_lt y x then y
      else if is_neg_zero x then x else y)"

section \<open>Data of App.tsx\<close>

datatype furniture_type = Chair | Table | Lamp

record FurnitureItem =
  item_id :: nat
  item_name :: string
  item_type :: furniture_type

text \<open>A colour is a packed RGB value, written as a hexadecimal integer in the source.\<close>

record ColorOption =
  color_name :: string
  color_value :: int

record Position =
  pos_x :: jsnum
  pos_y :: jsnum

definition FURNITURE_ITEMS :: "FurnitureItem list" where
  "FURNITURE_ITEMS =
     [\<lparr>item_id = 1, item_name = ''Modern Chair'', item_type = Chair\<rparr>,
      \<lparr>item_id = 2, item_name = ''Coffee Table'', item_type = Table\<rparr>,
      \<lparr>item_id = 3, item_name = ''Floor Lamp'', item_type = Lamp\<rparr>]"

definition COLOR_OPTIONS :: "ColorOption list" where
  "COLOR_OPTIONS =
     [\<lparr>color_name = ''White'', color_value = 0xffffff\<rparr>,
      \<lparr>color_name = ''Black'', color_value = 0x000000\<rparr>,
      \<lparr>color_name = ''Natural Wood'', color_value = 0xd2b48c\<rparr>,
      \<lparr>color_name = ''Blue'', color_value = 0x4169e1\<rparr>,
      \<lparr>color_name = ''Red'', color_value = 0xb22222\<rparr>]"

subsection \<open>The part of three.js that App.tsx uses\<close>

text \<open>
  Constructor arguments are kept as written. An argument left out in the source is
  \<open>None\<close>. \<open>Math.PI\<close> is the binary64 value nearest to the number pi.
\<close>

definition Math_PI :: jsnum where
  "Math_PI = Fin False (884279719003555 / 281474976710656)"

record Vector3 =
  vec_x :: jsnum
  vec_y :: jsnum
  vec_z :: jsnum

record Euler =
  rot_x :: jsnum
  rot_y :: jsnum
  rot_z :: jsnum

datatype geometry =
    BoxGeometry jsnum jsnum jsnum
  | CylinderGeometry jsnum jsnum jsnum "jsnum option"
  | ConeGeometry jsnum jsnum jsnum jsnum bool
  | SphereGeometry jsnum jsnum jsnum

datatype material_params =
    MeshPhongMaterial int
  | MeshBasicMaterial int int

text \<open>
  A geometry is constructed once for each shape and shared by the meshes of that shape;
  nothing reads or writes a geometry afterwards, so a mesh holds it by value.

  Materials are objects, shared by reference. \<open>mat_instance\<close> numbers the material
  objects in the order in which one call of \<open>createFurnitureModel\<close> constructs them: two
  meshes hold the same material object exactly when the numbers agree.
\<close>

record material =
  mat_instance :: nat
  mat_params :: material_params

record Object3D =
  position :: Vector3
  rotation :: Euler

record Mesh = Object3D +
  mesh_geometry :: geometry
  mesh_material :: material

record Group = Object3D +
  children :: "Mesh list"

definition origin :: Vector3 where
  "origin = \<lparr>vec_x = lit 0, vec_y = lit 0, vec_z = lit 0\<rparr>"

definition no_rotation :: Euler where
  "no_rotation = \<lparr>rot_x = lit 0, rot_y = lit 0, rot_z = lit 0\<rparr>"

definition new_Mesh :: "geometry \<Rightarrow> material \<Rightarrow> Mesh" where
  "new_Mesh g m =
     \<lparr>position = origin, rotation = no_rotation, mesh_geometry = g, mesh_material = m\<rparr>"

definition new_Group :: Group where
  "new_Group = \<lparr>position = origin, rotation = no_rotation, children = []\<rparr>"

definition group_add :: "Mesh \<Rightarrow> Group \<Rightarrow> Group" where
  "group_add m g = g\<lparr>children := children g @ [m]\<rparr>"

definition position_set :: "jsnum \<Rightarrow> jsnum \<Rightarrow> jsnum \<Rightarrow> Vector3" where
  "position_set a b c = \<lparr>vec_x = a, vec_y = b, vec_z = c\<rparr>"

definition set_position_y :: "jsnum \<Rightarrow> 'a Object3D_scheme \<Rightarrow> 'a Object3D_scheme" where
  "set_position_y v ob = ob\<lparr>position := (position ob)\<lparr>vec_y := v\<rparr>\<rparr>"

definition set_position_z :: "jsnum \<Rightarrow> 'a Object3D_scheme \<Rightarrow> 'a Object3D_scheme" where
  "set_position_z v ob = ob\<lparr>position := (position ob)\<lparr>vec_z := v\<rparr>\<rparr>"

definition set_rotation_x :: "jsnum \<Rightarrow> 'a Object3D_scheme \<Rightarrow> 'a Object3D_scheme" where
  "set_rotation_x v ob = ob\<lparr>rotation := (rotation ob)\<lparr>rot_x := v\<rparr>\<rparr>"

definition set_rotation_y :: "jsnum \<Rightarrow> 'a Object3D_scheme \<Rightarrow> 'a Object3D_scheme" where
  "set_rotation_y v ob = ob\<lparr>rotation := (rotation ob)\<lparr>rot_y := v\<rparr>\<rparr>"

section \<open>createFurnitureModel\<close>

text \<open>
  The legs of the chair and of the table are placed by two nested \<open>for\<close> loops whose
  counters are numbers stepped by \<open>+=\<close>. Whether such a loop ends depends on the rounded
  sums, so both loops are partial functions: \<open>None\<close> is a loop that never ends.
  \<open>for_z\<close> is the inner loop \<open>for (let z = z0; z <= hi; z += step)\<close> and \<open>for_x\<close> the
  outer one; \<open>body x z\<close> is the mesh that one iteration adds to the group.
\<close>

partial_function (option) for_z ::
  "(jsnum \<Rightarrow> Mesh) \<Rightarrow> jsnum \<Rightarrow> jsnum \<Rightarrow> jsnum \<Rightarrow> Group \<Rightarrow> Group option" where
  "for_z body hi step z g =
     (if js_le z hi then for_z body hi step (js_add z step) (group_add (body z) g)
      else Some g)"

partial_function (option) for_x ::
  "(jsnum \<Rightarrow> jsnum \<Rightarrow> Mesh) \<Rightarrow> jsnum \<Rightarrow> jsnum \<Rightarrow> jsnum \<Rightarrow> jsnum \<Rightarrow> jsnum \<Rightarrow> jsnum \<Rightarrow> Group
     \<Rightarrow> Group option" where
  "for_x body hi_x step_x z0 hi_z step_z x g =
     (if js_le x hi_x
      then Option.bind (for_z (body x) hi_z step_z z0 g)
             (for_x body hi_x step_x z0 hi_z step_z (js_add x step_x))
      else Some g)"

declare for_z.simps [code] for_x.simps [code]

definition leg_at :: "geometry \<Rightarrow> material \<Rightarrow> jsnum \<Rightarrow> jsnum \<Rightarrow> jsnum \<Rightarrow> Mesh" where
  \<comment> \<open>\<open>const leg = new THREE.Mesh(geometry, material); leg.position.set(x, h, z)\<close>\<close>
  "leg_at g m h x z = (new_Mesh g m)\<lparr>position := position_set x h z\<rparr>"

definition chair_seat :: "material \<Rightarrow> Mesh" where
  "chair_seat m = set_position_y (lit 0.5) (new_Mesh (BoxGeometry (lit 1) (lit 0.1) (lit 1)) m)"

definition chair_backrest :: "material \<Rightarrow> Mesh" where
  "chair_backrest m =
     set_position_z (js_neg (lit 0.45))
       (set_position_y (lit 1) (new_Mesh (BoxGeometry (lit 1) (lit 1) (lit 0.1)) m))"

definition chair_leg_geometry :: geometry where
  "chair_leg_geometry = CylinderGeometry (lit 0.05) (lit 0.05) (lit 0.5) None"

definition table_top :: "material \<Rightarrow> Mesh" where
  "table_top m = set_position_y (lit 0.8) (new_Mesh (BoxGeometry (lit 2) (lit 0.1) (lit 1.5)) m)"

definition table_leg_geometry :: geometry where
  "table_leg_geometry = BoxGeometry (lit 0.1) (lit 0.8) (lit 0.1)"

definition lamp_base :: "material \<Rightarrow> Mesh" where
  "lamp_base m =
     set_position_y (lit 0.05)
       (new_Mesh (CylinderGeometry (lit 0.3) (lit 0.4) (lit 0.1) (Some (lit 32))) m)"

definition lamp_pole :: "material \<Rightarrow> Mesh" where
  "lamp_pole m =
     set_position_y (lit 0.8)
       (new_Mesh (CylinderGeometry (lit 0.03) (lit 0.03) (lit 1.5) (Some (lit 32))) m)"

definition lamp_shade :: "material \<Rightarrow> Mesh" where
  "lamp_shade m =
     set_rotation_x Math_PI
       (set_position_y (lit 1.6)
          (new_Mesh (ConeGeometry (lit 0.3) (lit 0.5) (lit 32) (lit 1) True) m))"

definition lightMaterial :: material where
  \<comment> \<open>The second material object that the lamp branch constructs.\<close>
  "lightMaterial = \<lparr>mat_instance = 1, mat_params = MeshBasicMaterial 0xffffcc 0xffffcc\<rparr>"

definition lamp_bulb :: Mesh where
  "lamp_bulb =
     set_position_y (lit 1.4) (new_Mesh (SphereGeometry (lit 0.1) (lit 16) (lit 16)) lightMaterial)"

definition colored_material :: "ColorOption \<Rightarrow> material" where
  \<comment> \<open>\<open>material = new THREE.MeshPhongMaterial({ color: selectedColor.value })\<close>, the first
      material object of every branch.\<close>
  "colored_material c = \<lparr>mat_instance = 0, mat_params = MeshPhongMaterial (color_value c)\<rparr>"

fun createFurnitureModel :: "furniture_type \<Rightarrow> ColorOption \<Rightarrow> Group option" where
  "createFurnitureModel Chair selectedColor =
     (let material = colored_material selectedColor;
          group = group_add (chair_seat material) new_Group;
          group = group_add (chair_backrest material) group
      in for_x (leg_at chair_leg_geometry material (lit 0.25))
           (lit 0.4) (lit 0.8) (js_neg (lit 0.4)) (lit 0.4) (lit 0.8) (js_neg (lit 0.4)) group)"
| "createFurnitureModel Table selectedColor =
     (let material = colored_material selectedColor;
          tableGroup = group_add (table_top material) new_Group
      in for_x (leg_at table_leg_geometry material (lit 0.4))
           (lit 0.9) (lit 1.8) (js_neg (lit 0.65)) (lit 0.65) (lit 1.3) (js_neg (lit 0.9))
           tableGroup)"
| "createFurnitureModel Lamp selectedColor =
     (let material = colored_material selectedColor;
          lampGroup = group_add (lamp_base material) new_Group;
          lampGroup = group_add (lamp_pole material) lampGroup;
          lampGroup = group_add (lamp_shade material) lampGroup;
          lampGroup = group_add lamp_bulb lampGroup
      in Some lampGroup)"

declare createFurnitureModel.simps [simp del]

section \<open>The component state\<close>

text \<open>
  The scene holds its children by reference. The lights and the grid are constructed once
  and never touched again, so they are kept by value; the furniture model is the object
  that \<open>objectRef.current\<close> also points to, so the scene holds \<open>Model i\<close>, the number of that
  object, and the fields of the object live in \<open>objectRef\<close>, the only reference through
  which App.tsx reads or writes them. \<open>objects_created\<close> numbers the groups as
  \<open>updateFurnitureModel\<close> constructs them.

  \<open>render_calls\<close> and \<open>endFrame_calls\<close> count the calls of \<open>renderer.render\<close> and of
  \<open>gl.endFrameEXP\<close>, the two effects of a frame outside the component.
\<close>

datatype scene_child =
    AmbientLight int jsnum
  | DirectionalLight int jsnum Vector3 bool
  | GridHelper jsnum jsnum int int
  | Model nat

record PerspectiveCamera = Object3D +
  fov :: jsnum
  aspect :: jsnum
  near :: jsnum
  far :: jsnum

record Renderer =
  width :: jsnum
  height :: jsnum
  clearColor :: int

record ExpoWebGLRenderingContext =
  drawingBufferWidth :: jsnum
  drawingBufferHeight :: jsnum

record App =
  selectedItem :: FurnitureItem
  selectedColor :: ColorOption
  isLoading :: bool
  sceneRef :: "scene_child list option"
  cameraRef :: "PerspectiveCamera option"
  rendererRef :: "Renderer option"
  objectRef :: "(nat \<times> Group) option"
  animationRef :: "nat option"
  initialCameraZRef :: jsnum
  rotationRef :: Position
  lastPositionRef :: Position
  scaleRef :: jsnum
  objects_created :: nat
  render_calls :: nat
  endFrame_calls :: nat

definition initial_App :: App where
  \<comment> \<open>The \<open>useState\<close> and \<open>useRef\<close> initial values.\<close>
  "initial_App =
     \<lparr>selectedItem = FURNITURE_ITEMS ! 0,
      selectedColor = COLOR_OPTIONS ! 0,
      isLoading = True,
      sceneRef = None,
      cameraRef = None,
      rendererRef = None,
      objectRef = None,
      animationRef = None,
      initialCameraZRef = lit 3,
      rotationRef = \<lparr>pos_x = lit 0, pos_y = lit 0\<rparr>,
      lastPositionRef = \<lparr>pos_x = lit 0, pos_y = lit 0\<rparr>,
      scaleRef = lit 1,
      objects_created = 0,
      render_calls = 0,
      endFrame_calls = 0\<rparr>"

section \<open>updateFurnitureModel\<close>

definition remove_existing :: "App \<Rightarrow> scene_child list \<Rightarrow> scene_child list" where
  \<comment> \<open>\<open>if (objectRef.current) sceneRef.current.remove(objectRef.current)\<close>: three.js
      removes the child that is this object, if it is a child.\<close>
  "remove_existing st scene =
     (case objectRef st of None \<Rightarrow> scene | Some (i, ob) \<Rightarrow> remove1 (Model i) scene)"

definition reset_model :: "Group \<Rightarrow> Group" where
  \<comment> \<open>\<open>model.position.set(0, 0, 0); model.rotation.set(0, 0, 0)\<close>\<close>
  "reset_model model =
     model\<lparr>position := position_set (lit 0) (lit 0) (lit 0),
           rotation := \<lparr>rot_x = lit 0, rot_y = lit 0, rot_z = lit 0\<rparr>\<rparr>"

definition updateFurnitureModel :: "App \<Rightarrow> App option" where
  \<comment> \<open>Returns at once without a scene. Otherwise: removes the existing model from the
      scene, constructs the new one, stores it in \<open>objectRef\<close>, resets its position and
      rotation, and adds it to the scene. \<open>None\<close> only if the factory does not return.\<close>
  "updateFurnitureModel st =
     (case sceneRef st of
        None \<Rightarrow> Some st
      | Some scene \<Rightarrow>
          (let scene = remove_existing st scene
           in case createFurnitureModel (item_type (selectedItem st)) (selectedColor st) of
                None \<Rightarrow> None
              | Some model \<Rightarrow>
                  (let i = objects_created st;
                       model = reset_model model
                   in Some (st\<lparr>objectRef := Some (i, model),
                                sceneRef := Some (scene @ [Model i]),
                                objects_created := Suc i\<rparr>))))"

text \<open>
  A tap calls \<open>setSelectedItem\<close> or \<open>setSelectedColor\<close>; the effect with the dependencies
  \<open>[selectedItem, selectedColor]\<close> then runs \<open>updateFurnitureModel\<close> if the value changed.
\<close>

definition setSelectedItem :: "FurnitureItem \<Rightarrow> App \<Rightarrow> App option" where
  "setSelectedItem item st =
     (if item = selectedItem st then Some st
      else updateFurnitureModel (st\<lparr>selectedItem := item\<rparr>))"

definition setSelectedColor :: "ColorOption \<Rightarrow> App \<Rightarrow> App option" where
  "setSelectedColor color st =
     (if color = selectedColor st then Some st
      else updateFurnitureModel (st\<lparr>selectedColor := color\<rparr>))"

section \<open>onContextCreate and the render loop\<close>

definition render :: "nat \<Rightarrow> App \<Rightarrow> App" where
  \<comment> \<open>One tick; \<open>frame\<close> is what \<open>requestAnimationFrame\<close> returns.\<close>
  "render frame st =
     (let st = st\<lparr>animationRef := Some frame\<rparr>;
          st = (if rendererRef st \<noteq> None \<and> sceneRef st \<noteq> None \<and> cameraRef st \<noteq> None
                then st\<lparr>render_calls := Suc (render_calls st)\<rparr> else st)
      in st\<lparr>endFrame_calls := Suc (endFrame_calls st)\<rparr>)"

definition new_camera :: "ExpoWebGLRenderingContext \<Rightarrow> PerspectiveCamera" where
  "new_camera gl =
     set_position_y (lit 1)
       (set_position_z (lit 3)
          \<lparr>position = origin, rotation = no_rotation,
           fov = lit 75,
           aspect = js_div (drawingBufferWidth gl) (drawingBufferHeight gl),
           near = lit 0.1, far = lit 1000\<rparr>)"

definition scene_add :: "scene_child \<Rightarrow> App \<Rightarrow> App" where
  \<comment> \<open>\<open>scene.add(child)\<close> on the scene that \<open>sceneRef.current\<close> is. The child is newly
      constructed and has no parent, so three.js appends it.\<close>
  "scene_add child st = st\<lparr>sceneRef := map_option (\<lambda>scene. scene @ [child]) (sceneRef st)\<rparr>"

definition onContextCreate :: "ExpoWebGLRenderingContext \<Rightarrow> nat \<Rightarrow> App \<Rightarrow> App option" where
  \<comment> \<open>\<open>frame\<close> is what \<open>requestAnimationFrame\<close> returns to the first call of \<open>render\<close>.\<close>
  "onContextCreate gl frame st =
     (let st = st\<lparr>isLoading := True\<rparr>;
          st = st\<lparr>rendererRef :=
                    Some \<lparr>width = drawingBufferWidth gl, height = drawingBufferHeight gl,
                          clearColor = 0xf0f0f0\<rparr>\<rparr>;
          st = st\<lparr>sceneRef := Some []\<rparr>;
          st = scene_add (AmbientLight 0xffffff (lit 0.5)) st;
          st = scene_add (DirectionalLight 0xffffff (lit 0.8)
                            (position_set (lit 5) (lit 10) (lit 7.5)) True) st;
          st = st\<lparr>cameraRef := Some (new_camera gl)\<rparr>;
          st = scene_add (GridHelper (lit 10) (lit 10) 0xcccccc 0xcccccc) st
      in Option.bind (updateFurnitureModel st)
           (\<lambda>st. Some ((render frame st)\<lparr>isLoading := False\<rparr>)))"

section \<open>The gesture handlers\<close>

definition pan_delta :: "Position \<Rightarrow> jsnum \<Rightarrow> jsnum \<Rightarrow> Position" where
  \<comment> \<open>\<open>deltaX\<close> and \<open>deltaY\<close> of the pan update.\<close>
  "pan_delta lastPosition translationX translationY =
     \<lparr>pos_x = js_sub translationX (pos_x lastPosition),
      pos_y = js_sub translationY (pos_y lastPosition)\<rparr>"

definition panUpdate :: "jsnum \<Rightarrow> jsnum \<Rightarrow> App \<Rightarrow> App" where
  "panUpdate translationX translationY st =
     (case objectRef st of
        None \<Rightarrow> st
      | Some (i, ob) \<Rightarrow>
          (let delta = pan_delta (lastPositionRef st) translationX translationY;
               rot = \<lparr>pos_x = js_add (pos_x (rotationRef st)) (js_mul (pos_y delta) (lit 0.01)),
                      pos_y = js_add (pos_y (rotationRef st)) (js_mul (pos_x delta) (lit 0.01))\<rparr>
           in st\<lparr>rotationRef := rot,
                  objectRef := Some (i, set_rotation_y (pos_y rot) (set_rotation_x (pos_x rot) ob)),
                  lastPositionRef := \<lparr>pos_x = translationX, pos_y = translationY\<rparr>\<rparr>))"

definition panEnd :: "App \<Rightarrow> App" where
  "panEnd st =
     (let st = (case objectRef st of
                  None \<Rightarrow> st
                | Some (i, ob) \<Rightarrow>
                    st\<lparr>rotationRef :=
                         \<lparr>pos_x = rot_x (rotation ob), pos_y = rot_y (rotation ob)\<rparr>\<rparr>)
      in st\<lparr>lastPositionRef := \<lparr>pos_x = lit 0, pos_y = lit 0\<rparr>\<rparr>)"

definition pinchStart :: "App \<Rightarrow> App" where
  "pinchStart st =
     (case cameraRef st of
        None \<Rightarrow> st
      | Some camera \<Rightarrow> st\<lparr>initialCameraZRef := vec_z (position camera)\<rparr>)"

definition pinchUpdate :: "jsnum \<Rightarrow> App \<Rightarrow> App" where
  "pinchUpdate scale st =
     (case cameraRef st of
        None \<Rightarrow> st
      | Some camera \<Rightarrow>
          st\<lparr>cameraRef :=
               Some (set_position_z
                       (Math_max (lit 1.5) (Math_min (lit 5) (js_div (initialCameraZRef st) scale)))
                       camera)\<rparr>)"

definition pinchEnd :: "App \<Rightarrow> App" where
  "pinchEnd st =
     (case cameraRef st of
        None \<Rightarrow> st
      | Some camera \<Rightarrow> st\<lparr>initialCameraZRef := vec_z (position camera)\<rparr>)"

section \<open>Runs of the component\<close>

text \<open>
  What happens to the mounted component: the GL surface becomes ready, the user taps a
  furniture item or a colour, the gesture recognisers report a pan or a pinch, and the
  animation frame fires. \<open>handle\<close> dispatches one event to its handler and \<open>run\<close> a
  sequence of them, from left to right.
\<close>

datatype event =
    ContextCreate ExpoWebGLRenderingContext nat
  | SelectItem FurnitureItem
  | SelectColor ColorOption
  | PanUpdate jsnum jsnum
  | PanEnd
  | PinchStart
  | PinchUpdate jsnum
  | PinchEnd
  | Frame nat

fun handle :: "event \<Rightarrow> App \<Rightarrow> App option" where
  "handle (ContextCreate gl h) st = onContextCreate gl h st"
| "handle (SelectItem item) st = setSelectedItem item st"
| "handle (SelectColor color) st = setSelectedColor color st"
| "handle (PanUpdate translationX translationY) st = Some (panUpdate translationX translationY st)"
| "handle PanEnd st = Some (panEnd st)"
| "handle PinchStart st = Some (pinchStart st)"
| "handle (PinchUpdate scale) st = Some (pinchUpdate scale st)"
| "handle PinchEnd st = Some (pinchEnd st)"
| "handle (Frame h) st = Some (render h st)"

fun run :: "event list \<Rightarrow> App \<Rightarrow> App option" where
  "run [] st = Some st"
| "run (e # es) st = Option.bind (handle e st) (run es)"

section \<open>Notions of the specification\<close>

definition clamp :: "jsnum \<Rightarrow> jsnum \<Rightarrow> jsnum \<Rightarrow> jsnum" where
  \<comment> \<open>The specification's \<open>clamp(x, lo, hi)\<close>, with the comparisons of numbers.\<close>
  "clamp x lo hi = (if js_lt x lo then lo else if js_lt hi x then hi else x)"

definition camera_distance :: "App \<Rightarrow> jsnum option" where
  \<comment> \<open>The camera's distance along the viewing axis, \<open>camera.position.z\<close>.\<close>
  "camera_distance st = map_option (\<lambda>camera. vec_z (position camera)) (cameraRef st)"

definition in_zoom_range :: "jsnum \<Rightarrow> bool" where
  "in_zoom_range d = (js_le (lit 1.5) d \<and> js_le d (lit 5))"

definition model_rotation :: "App \<Rightarrow> Position option" where
  \<comment> \<open>The x and y rotation of the model that \<open>objectRef\<close> holds.\<close>
  "model_rotation st =
     map_option (\<lambda>(i, ob). \<lparr>pos_x = rot_x (rotation ob), pos_y = rot_y (rotation ob)\<rparr>)
       (objectRef st)"

fun is_finite :: "jsnum \<Rightarrow> bool" where
  "is_finite (Fin s m) = True"
| "is_finite x = False"

fun num_val :: "jsnum \<Rightarrow> rat" where
  \<comment> \<open>The rational value of a finite number; it is read of finite numbers only.\<close>
  "num_val (Fin s m) = sval s m"
| "num_val x = 0"

fun is_Model :: "scene_child \<Rightarrow> bool" where
  "is_Model (Model i) = True"
| "is_Model c = False"

definition attached_models :: "App \<Rightarrow> scene_child list" where
  \<comment> \<open>The furniture models among the children of the scene.\<close>
  "attached_models st = (case sceneRef st of None \<Rightarrow> [] | Some scene \<Rightarrow> filter is_Model scene)"

definition part :: "geometry \<Rightarrow> material \<Rightarrow> jsnum \<Rightarrow> jsnum \<Rightarrow> jsnum \<Rightarrow> Mesh" where
  \<comment> \<open>A mesh of the given geometry and material, placed at \<open>(x, y, z)\<close> and not rotated.\<close>
  "part g m x y z =
     \<lparr>position = \<lparr>vec_x = x, vec_y = y, vec_z = z\<rparr>,
      rotation = \<lparr>rot_x = lit 0, rot_y = lit 0, rot_z = lit 0\<rparr>,
      mesh_geometry = g, mesh_material = m\<rparr>"

definition zoom_inv :: "App \<Rightarrow> bool" where
  \<comment> \<open>The zoom anchor and, once there is a camera, its distance are within the range.\<close>
  "zoom_inv st =
     (in_zoom_range (initialCameraZRef st) \<and>
      (case camera_distance st of None \<Rightarrow> True | Some d \<Rightarrow> in_zoom_range d))"

definition attach_inv :: "App \<Rightarrow> bool" where
  \<comment> \<open>The scene holds no model, or exactly the one that \<open>objectRef\<close> points to.\<close>
  "attach_inv st =
     (attached_models st = [] \<or>
      (case objectRef st of None \<Rightarrow> False | Some (i, ob) \<Rightarrow> attached_models st = [Model i]))"

subsection \<open>A concrete run, for reference\<close>

definition example_gl :: ExpoWebGLRenderingContext where
  "example_gl = \<lparr>drawingBufferWidth = lit 1080, drawingBufferHeight = lit 1920\<rparr>"

definition white_chair :: Group where
  \<comment> \<open>The chair in the first colour, as \<open>updateFurnitureModel\<close> leaves it.\<close>
  "white_chair =
     (let m = \<lparr>mat_instance = 0, mat_params = MeshPhongMaterial 0xffffff\<rparr>;
          leg = CylinderGeometry (lit 0.05) (lit 0.05) (lit 0.5) None
      in \<lparr>position = \<lparr>vec_x = lit 0, vec_y = lit 0, vec_z = lit 0\<rparr>,
          rotation = \<lparr>rot_x = lit 0, rot_y = lit 0, rot_z = lit 0\<rparr>,
          children =
            [part (BoxGeometry (lit 1) (lit 0.1) (lit 1)) m (lit 0) (lit 0.5) (lit 0),
             part (BoxGeometry (lit 1) (lit 1) (lit 0.1)) m (lit 0) (lit 1) (js_neg (lit 0.45)),
             part leg m (js_neg (lit 0.4)) (lit 0.25) (js_neg (lit 0.4)),
             part leg m (js_neg (lit 0.4)) (lit 0.25) (lit 0.4),
             part leg m (lit 0.4) (lit 0.25) (js_neg (lit 0.4)),
             part leg m (lit 0.4) (lit 0.25) (lit 0.4)]\<rparr>)"

definition started :: App where
  \<comment> \<open>The state after \<open>onContextCreate example_gl\<close> on the freshly mounted component, the
      first animation frame having the handle 1.\<close>
  "started =
     \<lparr>selectedItem = \<lparr>item_id = 1, item_name = ''Modern Chair'', item_type = Chair\<rparr>,
      selectedColor = \<lparr>color_name = ''White'', color_value = 0xffffff\<rparr>,
      isLoading = False,
      sceneRef =
        Some [AmbientLight 0xffffff (lit 0.5),
              DirectionalLight 0xffffff (lit 0.8)
                \<lparr>vec_x = lit 5, vec_y = lit 10, vec_z = lit 7.5\<rparr> True,
              GridHelper (lit 10) (lit 10) 0xcccccc 0xcccccc,
              Model 0],
      cameraRef =
        Some \<lparr>position = \<lparr>vec_x = lit 0, vec_y = lit 1, vec_z = lit 3\<rparr>,
              rotation = \<lparr>rot_x = lit 0, rot_y = lit 0, rot_z = lit 0\<rparr>,
              fov = lit 75, aspect = js_div (lit 1080) (lit 1920),
              near = lit 0.1, far = lit 1000\<rparr>,
      rendererRef = Some \<lparr>width = lit 1080, height = lit 1920, clearColor = 0xf0f0f0\<rparr>,
      objectRef = Some (0, white_chair),
      animationRef = Some 1,
      initialCameraZRef = lit 3,
      rotationRef = \<lparr>pos_x = lit 0, pos_y = lit 0\<rparr>,
      lastPositionRef = \<lparr>pos_x = lit 0, pos_y = lit 0\<rparr>,
      scaleRef = lit 1,
      objects_created = 1,
      render_calls = 1,
      endFrame_calls = 1\<rparr>"

section \<open>Rounding to binary64\<close>

text \<open>
  The rounding function does what the standard asks of round-to-nearest: \<open>ilog2\<close> is the
  binary exponent, the result is within half a unit in the last place of the exact value,
  it is of the form \<open>m * 2 ^ (e - 52)\<close> with a significand of at most 53 bits, and
  rounding it again returns it. So the binary64 values are closed under the arithmetic.
\<close>

lemma pow2_powi: "pow2 e = 2 powi e"
  by (simp add: pow2_def power_int_def inverse_eq_divide power_divide)

lemma pow2_pos: "0 < pow2 e"
  by (simp add: pow2_powi)

lemma pow2_add: "pow2 (a + b) = pow2 a * pow2 b"
  by (simp add: pow2_powi power_int_add)

lemma pow2_diff: "pow2 (a - b) = pow2 a / pow2 b"
  by (simp add: pow2_powi power_int_diff)

lemma pow2_mono: "a \<le> b \<Longrightarrow> pow2 a \<le> pow2 b"
  by (simp add: pow2_powi power_int_increasing)

lemma pow2_strict_mono: "a < b \<Longrightarrow> pow2 a < pow2 b"
  by (simp add: pow2_powi power_int_strict_increasing)

lemma pow2_less_cancel: "pow2 a < pow2 b \<Longrightarrow> a < b"
  using pow2_mono [of b a] by (cases "a < b") auto

lemma pow2_Suc: "pow2 (e + 1) = 2 * pow2 e"
  by (simp add: pow2_powi power_int_add_1')

lemma bitlen_pow2_bounds:
  assumes "0 < a"
  shows "pow2 (bitlen a - 1) \<le> of_int a" and "of_int a < pow2 (bitlen a)"
proof -
  have b: "2 ^ nat (bitlen a - 1) \<le> a" "a < 2 ^ nat (bitlen a)"
    using bitlen_bounds [OF assms] by simp_all
  have pos: "1 \<le> bitlen a"
    using assms by (simp add: bitlen_alt_def)
  have "(of_int (2 ^ nat (bitlen a - 1)) :: rat) \<le> of_int a"
    using b(1) by (simp only: of_int_le_iff)
  then show "pow2 (bitlen a - 1) \<le> of_int a"
    using pos by (simp add: pow2_def)
  have "(of_int a :: rat) < of_int (2 ^ nat (bitlen a))"
    using b(2) by (simp only: of_int_less_iff)
  then show "of_int a < pow2 (bitlen a)"
    using pos by (simp add: pow2_def)
qed

lemma ilog2_bounds:
  assumes "0 < q"
  shows "pow2 (ilog2 q) \<le> q" and "q < pow2 (ilog2 q + 1)"
proof -
  obtain a b where ab: "quotient_of q = (a, b)"
    by (cases "quotient_of q")
  have b: "0 < b" and q: "q = of_int a / of_int b"
    using ab quotient_of_denom_pos quotient_of_div by blast+
  have a: "0 < a"
    using assms b q by (simp add: zero_less_divide_iff)
  let ?k = "bitlen a - bitlen b"
  have lower: "pow2 (?k - 1) < q"
  proof -
    have "pow2 (?k - 1) = pow2 (bitlen a - 1) / pow2 (bitlen b)"
      by (simp add: pow2_diff [symmetric] algebra_simps)
    also have "\<dots> \<le> of_int a / pow2 (bitlen b)"
      using bitlen_pow2_bounds(1) [OF a] pow2_pos [of "bitlen b"]
      by (simp add: divide_right_mono)
    also have "\<dots> < of_int a / of_int b"
      using bitlen_pow2_bounds(2) [OF b] a b by (simp add: divide_strict_left_mono)
    finally show ?thesis
      using q by simp
  qed
  have upper: "q < pow2 (?k + 1)"
  proof -
    have "of_int a / of_int b < pow2 (bitlen a) / of_int b"
      using bitlen_pow2_bounds(2) [OF a] b by (simp add: divide_strict_right_mono)
    also have "\<dots> \<le> pow2 (bitlen a) / pow2 (bitlen b - 1)"
      using bitlen_pow2_bounds(1) [OF b] b pow2_pos [of "bitlen a"] pow2_pos [of "bitlen b - 1"]
      by (simp add: divide_left_mono)
    also have "\<dots> = pow2 (?k + 1)"
      by (simp add: pow2_diff [symmetric] algebra_simps)
    finally show ?thesis
      using q by simp
  qed
  show "pow2 (ilog2 q) \<le> q"
    using lower ab by (simp add: ilog2_def Let_def)
  show "q < pow2 (ilog2 q + 1)"
    using upper ab by (auto simp: ilog2_def Let_def not_le)
qed

lemma ilog2_unique:
  assumes "pow2 e \<le> q" and "q < pow2 (e + 1)"
  shows "ilog2 q = e"
proof -
  have q: "0 < q"
    using assms(1) pow2_pos [of e] by simp
  have "pow2 (ilog2 q) < pow2 (e + 1)"
    using ilog2_bounds(1) [OF q] assms(2) by simp
  then have "ilog2 q < e + 1"
    by (rule pow2_less_cancel)
  moreover have "pow2 e < pow2 (ilog2 q + 1)"
    using ilog2_bounds(2) [OF q] assms(1) by simp
  then have "e < ilog2 q + 1"
    by (rule pow2_less_cancel)
  ultimately show ?thesis
    by simp
qed

lemma round_half_even_error: "\<bar>of_int (round_half_even q) - q\<bar> \<le> 1 / 2"
proof -
  define d where "d = q - of_int \<lfloor>q\<rfloor>"
  have d: "0 \<le> d" "d < 1"
    unfolding d_def by linarith+
  have q: "q = of_int \<lfloor>q\<rfloor> + d"
    by (simp add: d_def)
  have "round_half_even q = \<lfloor>q\<rfloor> \<and> d \<le> 1 / 2
      \<or> round_half_even q = \<lfloor>q\<rfloor> + 1 \<and> 1 / 2 \<le> d"
    by (auto simp: round_half_even_def Let_def d_def)
  then show ?thesis
    using d by (subst (2) q) (auto simp: abs_if)
qed

lemma round_half_even_int: "round_half_even (of_int m) = m"
  by (simp add: round_half_even_def)

lemma round_half_even_mono: "a \<le> b \<Longrightarrow> round_half_even a \<le> round_half_even b"
proof -
  assume ab: "a \<le> b"
  have fl: "\<lfloor>a\<rfloor> \<le> \<lfloor>b\<rfloor>"
    using ab by (rule floor_mono)
  show ?thesis
  proof (cases "\<lfloor>a\<rfloor> = \<lfloor>b\<rfloor>")
    case True
    then show ?thesis
      using ab by (auto simp: round_half_even_def Let_def)
  next
    case False
    then have "\<lfloor>a\<rfloor> + 1 \<le> \<lfloor>b\<rfloor>"
      using fl by simp
    moreover have "round_half_even a \<le> \<lfloor>a\<rfloor> + 1" "\<lfloor>b\<rfloor> \<le> round_half_even b"
      by (auto simp: round_half_even_def Let_def)
    ultimately show ?thesis
      by simp
  qed
qed

lemma pow2_numeral: "pow2 52 = 2 ^ 52" "pow2 53 = 2 ^ 53"
  by (simp_all add: pow2_def)

lemma pow2_split: "pow2 e = 2 ^ 52 * pow2 (e - 52)" "pow2 (e + 1) = 2 ^ 53 * pow2 (e - 52)"
  by (simp_all add: pow2_powi power_int_diff power_int_add)

text \<open>
  A value \<open>m * 2 ^ (e - 52)\<close> with a significand \<open>m\<close> below \<open>2 ^ 53\<close> that is normalised, or
  has the least exponent, is representable: rounding returns it.
\<close>

lemma round_mag_representable:
  assumes e: "- 1022 \<le> e" "e \<le> 1023" and m: "0 < m" "m < 2 ^ 53"
    and normal: "e = - 1022 \<or> 2 ^ 52 \<le> m"
  shows "round_mag (of_int m * pow2 (e - 52)) = Some (of_int m * pow2 (e - 52))"
proof -
  let ?ulp = "pow2 (e - 52)"
  let ?r = "of_int m * ?ulp"
  have ulp: "0 < ?ulp"
    by (rule pow2_pos)
  have r: "0 < ?r"
    using m(1) ulp by simp
  have upper: "?r < pow2 (e + 1)"
  proof -
    have "(of_int m :: rat) < of_int (2 ^ 53)"
      using m(2) by (simp only: of_int_less_iff)
    then show ?thesis
      unfolding pow2_split(2) [of e] using ulp by simp
  qed
  have "max (ilog2 ?r) (- 1022) = e"
  proof (cases "2 ^ 52 \<le> m")
    case True
    then have "(of_int (2 ^ 52) :: rat) \<le> of_int m"
      by (simp only: of_int_le_iff)
    then have "pow2 e \<le> ?r"
      unfolding pow2_split(1) [of e] using ulp by simp
    then have "ilog2 ?r = e"
      using upper by (rule ilog2_unique)
    then show ?thesis
      using e(1) by simp
  next
    case False
    then have least: "e = - 1022"
      using normal by simp
    have "pow2 (ilog2 ?r) < pow2 (e + 1)"
      using ilog2_bounds(1) [OF r] upper by simp
    then have "ilog2 ?r < e + 1"
      by (rule pow2_less_cancel)
    then show ?thesis
      using least by simp
  qed
  moreover have "?r / ?ulp = of_int m"
    using ulp by simp
  ultimately show ?thesis
    using r e(2) m(2) by (simp add: round_mag_def Let_def round_half_even_int)
qed

text \<open>What rounding returns is representable, so rounding it again changes nothing.\<close>

lemma round_mag_idem:
  assumes "0 \<le> q" and "round_mag q = Some r"
  shows "round_mag r = Some r" and "0 \<le> r"
proof -
  have "round_mag r = Some r \<and> 0 \<le> r"
  proof (cases "q = 0")
    case True
    then show ?thesis
      using assms(2) by (auto simp: round_mag_def)
  next
    case False
    then have q: "0 < q"
      using assms(1) by simp
    define e where "e = max (ilog2 q) (- 1022)"
    define ulp where "ulp = pow2 (e - 52)"
    define m where "m = round_half_even (q / ulp)"
    have ulp: "0 < ulp"
      unfolding ulp_def by (rule pow2_pos)
    have r: "r = of_int m * ulp" and e_le: "e \<le> 1023" and no_overflow: "e = 1023 \<longrightarrow> m \<noteq> 2 ^ 53"
      using assms(2) False
      by (auto simp: round_mag_def Let_def e_def ulp_def m_def split: if_splits)
    have e_ge: "- 1022 \<le> e"
      by (simp add: e_def)
    have "q < pow2 (ilog2 q + 1)"
      using q by (rule ilog2_bounds(2))
    also have "\<dots> \<le> pow2 (e + 1)"
      by (rule pow2_mono) (simp add: e_def)
    finally have "q / ulp < of_int (2 ^ 53)"
      unfolding pow2_split(2) [of e] ulp_def [symmetric] using ulp
      by (simp add: pos_divide_less_eq)
    then have "round_half_even (q / ulp) \<le> round_half_even (of_int (2 ^ 53))"
      by (intro round_half_even_mono) simp
    then have m_le: "m \<le> 2 ^ 53"
      unfolding m_def round_half_even_int .
    have "round_half_even (of_int 0) \<le> round_half_even (q / ulp)"
      using q ulp by (intro round_half_even_mono) simp
    then have m_ge: "0 \<le> m"
      unfolding m_def round_half_even_int .
    have normal: "2 ^ 52 \<le> m" if "e \<noteq> - 1022"
    proof -
      have "e = ilog2 q"
        using that by (simp add: e_def max_def split: if_splits)
      then have "pow2 e \<le> q"
        using ilog2_bounds(1) [OF q] by simp
      then have "of_int (2 ^ 52) \<le> q / ulp"
        unfolding pow2_split(1) [of e] ulp_def [symmetric] using ulp
        by (simp add: pos_le_divide_eq)
      then have "round_half_even (of_int (2 ^ 52)) \<le> round_half_even (q / ulp)"
        by (rule round_half_even_mono)
      then show ?thesis
        unfolding m_def round_half_even_int .
    qed
    consider "m = 0" | "0 < m" "m < 2 ^ 53" | "m = 2 ^ 53"
      using m_ge m_le by linarith
    then show ?thesis
    proof cases
      case 1
      then show ?thesis
        by (simp add: r round_mag_def)
    next
      case 2
      have "round_mag (of_int m * pow2 (e - 52)) = Some (of_int m * pow2 (e - 52))"
        using e_ge e_le 2 normal by (intro round_mag_representable) auto
      then show ?thesis
        using 2(1) ulp by (simp add: r ulp_def)
    next
      case 3
      then have e1: "e + 1 \<le> 1023"
        using e_le no_overflow by simp
      have "e + 1 - 52 = e - 52 + 1"
        by simp
      then have "pow2 (e + 1 - 52) = pow2 (e - 52 + 1)"
        by (rule arg_cong)
      then have half: "pow2 (e + 1 - 52) = 2 * pow2 (e - 52)"
        unfolding pow2_Suc .
      then have half': "pow2 (e - 51) = 2 * pow2 (e - 52)"
        by simp
      have "round_mag (of_int (2 ^ 52) * pow2 (e + 1 - 52)) =
              Some (of_int (2 ^ 52) * pow2 (e + 1 - 52))"
        using e_ge e1 by (intro round_mag_representable) auto
      moreover have "of_int (2 ^ 52) * pow2 (e + 1 - 52) = r"
        by (simp add: r 3 half' ulp_def)
      ultimately show ?thesis
        using ulp by (simp add: r 3)
    qed
  qed
  then show "round_mag r = Some r" and "0 \<le> r"
    by simp_all
qed

text \<open>Rounding is to a nearest value: the result is within half a unit in the last place.\<close>

lemma round_mag_error:
  assumes "0 < q" and "round_mag q = Some r"
  shows "\<bar>r - q\<bar> \<le> pow2 (max (ilog2 q) (- 1022) - 52) / 2"
proof -
  define ulp where "ulp = pow2 (max (ilog2 q) (- 1022) - 52)"
  have ulp: "0 < ulp"
    unfolding ulp_def by (rule pow2_pos)
  have r: "r = of_int (round_half_even (q / ulp)) * ulp"
    using assms by (auto simp: round_mag_def Let_def ulp_def split: if_splits)
  have "r - q = (of_int (round_half_even (q / ulp)) - q / ulp) * ulp"
    using ulp by (simp add: r field_simps)
  then have "\<bar>r - q\<bar> = \<bar>of_int (round_half_even (q / ulp)) - q / ulp\<bar> * ulp"
    using ulp by (simp add: abs_mult)
  also have "\<dots> \<le> 1 / 2 * ulp"
    using round_half_even_error [of "q / ulp"] ulp by (intro mult_right_mono) simp_all
  finally show ?thesis
    by (simp add: ulp_def)
qed

text \<open>The numbers that arithmetic on binary64 values returns are binary64 values.\<close>

lemma is_double_js_round: "0 \<le> q \<Longrightarrow> is_double (js_round s q)"
  using round_mag_idem [of q]
  by (cases "round_mag q") (auto simp: js_round_def)

lemma is_double_lit: "0 \<le> q \<Longrightarrow> is_double (lit q)"
  by (simp add: lit_def is_double_js_round)

lemma is_double_neg: "is_double a \<Longrightarrow> is_double (js_neg a)"
  by (cases a) simp_all

lemma is_double_zero: "is_double (Fin s 0)"
  by (simp add: round_mag_def)

lemma is_double_add: "is_double a \<Longrightarrow> is_double b \<Longrightarrow> is_double (js_add a b)"
  by (cases a; cases b) (simp_all add: Let_def is_double_js_round round_mag_def)

lemma is_double_sub: "is_double a \<Longrightarrow> is_double b \<Longrightarrow> is_double (js_sub a b)"
  by (simp add: js_sub_def is_double_add is_double_neg)

lemma is_double_mul: "is_double a \<Longrightarrow> is_double b \<Longrightarrow> is_double (js_mul a b)"
  by (cases a; cases b) (simp_all add: is_double_js_round)

lemma is_double_div: "is_double a \<Longrightarrow> is_double b \<Longrightarrow> is_double (js_div a b)"
  by (cases a; cases b) (simp_all add: is_double_js_round round_mag_def)

section \<open>Facts about the numbers of the source\<close>

text \<open>
  The simplifier leaves the argument of a literal as the source writes it, so that \<open>lit 0.4\<close>
  stays \<open>lit 0.4\<close>; the value of a literal is computed from the definitions where needed.
\<close>

lemma lit_cong [cong]: "lit q = lit q"
  by (rule refl)

lemma lit_0: "lit 0 = Fin False 0"
  by code_simp


lemma lit_3: "lit 3 = Fin False 3"
  by code_simp

lemma lit_5: "lit 5 = Fin False 5"
  by code_simp

lemma lit_1_5: "lit 1.5 = Fin False (3 / 2)"
  by code_simp

text \<open>Some values that every implementation of binary64 arithmetic agrees on.\<close>

lemma known_sum:
  "js_add (lit 0.1) (lit 0.2) = lit 0.30000000000000004
   \<and> lit 0.3 \<noteq> lit 0.30000000000000004"
  by code_simp

lemma known_difference: "js_sub (lit 0.3) (lit 0.1) = lit 0.19999999999999998"
  by code_simp

lemma known_cancellation:
  "js_sub (js_add (lit 0.1) (lit 0.2)) (lit 0.3) = lit (5551115123125783 / 10 ^ 32)"
  by code_simp

lemma known_quotient: "js_div (lit 1) (lit 3) = lit 0.3333333333333333"
  by code_simp

lemma known_product: "js_mul (lit 0.1) (lit 3) = lit 0.30000000000000004"
  by code_simp

lemma known_tie_to_even:
  "js_add (lit 9007199254740992) (lit 1) = lit 9007199254740992
   \<and> js_add (lit 9007199254740994) (lit 1) = lit 9007199254740996"
  by code_simp

lemma known_division_by_zero:
  "js_div (lit 1) (lit 0) = Inf False \<and> js_div (lit 1) (js_neg (lit 0)) = Inf True
   \<and> js_div (lit 0) (lit 0) = NaN"
  by code_simp

text \<open>The counters of the leg loops: the second value is exact, the third is beyond the bound.\<close>

lemma chair_enter: "js_le (js_neg (lit 0.4)) (lit 0.4)"
  by code_simp

lemma chair_step: "js_add (js_neg (lit 0.4)) (lit 0.8) = lit 0.4"
  by code_simp

lemma chair_again: "js_le (lit 0.4) (lit 0.4)"
  by code_simp

lemma chair_leave: "\<not> js_le (js_add (lit 0.4) (lit 0.8)) (lit 0.4)"
  by code_simp

lemma table_enter_x: "js_le (js_neg (lit 0.9)) (lit 0.9)"
  by code_simp

lemma table_step_x: "js_add (js_neg (lit 0.9)) (lit 1.8) = lit 0.9"
  by code_simp

lemma table_again_x: "js_le (lit 0.9) (lit 0.9)"
  by code_simp

lemma table_leave_x: "\<not> js_le (js_add (lit 0.9) (lit 1.8)) (lit 0.9)"
  by code_simp

lemma table_enter_z: "js_le (js_neg (lit 0.65)) (lit 0.65)"
  by code_simp

lemma table_step_z: "js_add (js_neg (lit 0.65)) (lit 1.3) = lit 0.65"
  by code_simp

lemma table_again_z: "js_le (lit 0.65) (lit 0.65)"
  by code_simp

lemma table_leave_z: "\<not> js_le (js_add (lit 0.65) (lit 1.3)) (lit 0.65)"
  by code_simp

section \<open>The model factory\<close>

text \<open>A loop whose counter passes the bound with its third value runs exactly twice.\<close>

lemma for_z_twice:
  assumes "js_le z0 hi" and "js_le (js_add z0 step) hi"
    and "\<not> js_le (js_add (js_add z0 step) step) hi"
  shows "for_z body hi step z0 g =
           Some (group_add (body (js_add z0 step)) (group_add (body z0) g))"
  using assms by (simp add: for_z.simps)

lemma for_x_twice:
  assumes "js_le x0 hi" and "js_le (js_add x0 step) hi"
    and "\<not> js_le (js_add (js_add x0 step) step) hi"
  shows "for_x body hi step z0 hi_z step_z x0 g =
           Option.bind (for_z (body x0) hi_z step_z z0 g)
             (for_z (body (js_add x0 step)) hi_z step_z z0)"
proof -
  have last: "for_x body hi step z0 hi_z step_z (js_add (js_add x0 step) step) = Some"
    by (rule ext, subst for_x.simps) (simp only: assms if_False)
  have second: "for_x body hi step z0 hi_z step_z (js_add x0 step) =
                  for_z (body (js_add x0 step)) hi_z step_z z0"
    by (rule ext, subst for_x.simps) (simp add: assms last)
  show ?thesis
    by (subst for_x.simps) (simp only: assms if_True second)
qed

lemma chair_counter:
  "js_le (js_add (js_neg (lit 0.4)) (lit 0.8)) (lit 0.4)"
  "\<not> js_le (js_add (js_add (js_neg (lit 0.4)) (lit 0.8)) (lit 0.8)) (lit 0.4)"
  unfolding chair_step by (rule chair_again, rule chair_leave)

lemma table_counter_x:
  "js_le (js_add (js_neg (lit 0.9)) (lit 1.8)) (lit 0.9)"
  "\<not> js_le (js_add (js_add (js_neg (lit 0.9)) (lit 1.8)) (lit 1.8)) (lit 0.9)"
  unfolding table_step_x by (rule table_again_x, rule table_leave_x)

lemma table_counter_z:
  "js_le (js_add (js_neg (lit 0.65)) (lit 1.3)) (lit 0.65)"
  "\<not> js_le (js_add (js_add (js_neg (lit 0.65)) (lit 1.3)) (lit 1.3)) (lit 0.65)"
  unfolding table_step_z by (rule table_again_z, rule table_leave_z)

lemma createFurnitureModel_Chair:
  "createFurnitureModel Chair c =
     Some \<lparr>position = origin, rotation = no_rotation,
           children =
             [chair_seat (colored_material c), chair_backrest (colored_material c),
              leg_at chair_leg_geometry (colored_material c) (lit 0.25)
                (js_neg (lit 0.4)) (js_neg (lit 0.4)),
              leg_at chair_leg_geometry (colored_material c) (lit 0.25)
                (js_neg (lit 0.4)) (lit 0.4),
              leg_at chair_leg_geometry (colored_material c) (lit 0.25)
                (lit 0.4) (js_neg (lit 0.4)),
              leg_at chair_leg_geometry (colored_material c) (lit 0.25)
                (lit 0.4) (lit 0.4)]\<rparr>"
  unfolding createFurnitureModel.simps Let_def
    for_x_twice [OF chair_enter chair_counter]
    for_z_twice [OF chair_enter chair_counter]
    chair_step
  by (simp add: group_add_def new_Group_def)

lemma createFurnitureModel_Table:
  "createFurnitureModel Table c =
     Some \<lparr>position = origin, rotation = no_rotation,
           children =
             [table_top (colored_material c),
              leg_at table_leg_geometry (colored_material c) (lit 0.4)
                (js_neg (lit 0.9)) (js_neg (lit 0.65)),
              leg_at table_leg_geometry (colored_material c) (lit 0.4)
                (js_neg (lit 0.9)) (lit 0.65),
              leg_at table_leg_geometry (colored_material c) (lit 0.4)
                (lit 0.9) (js_neg (lit 0.65)),
              leg_at table_leg_geometry (colored_material c) (lit 0.4)
                (lit 0.9) (lit 0.65)]\<rparr>"
  unfolding createFurnitureModel.simps Let_def
    for_x_twice [OF table_enter_x table_counter_x]
    for_z_twice [OF table_enter_z table_counter_z]
    table_step_x table_step_z
  by (simp add: group_add_def new_Group_def)

lemma createFurnitureModel_Lamp:
  "createFurnitureModel Lamp c =
     Some \<lparr>position = origin, rotation = no_rotation,
           children =
             [lamp_base (colored_material c), lamp_pole (colored_material c),
              lamp_shade (colored_material c), lamp_bulb]\<rparr>"
  by (simp add: createFurnitureModel.simps Let_def group_add_def new_Group_def)

lemmas part_defs =
  part_def leg_at_def new_Mesh_def origin_def no_rotation_def position_set_def
  set_position_y_def set_position_z_def set_rotation_x_def set_rotation_y_def

text \<open>
  C4. For the chair and any colour, the factory returns a group of exactly six meshes, in
  this order: the seat, a box of 1 by 0.1 by 1 at height 0.5; the backrest, a box of 1 by 1
  by 0.1 at height 1 and 0.45 back; and four legs, cylinders of radius 0.05 and height 0.5
  at height 0.25, at the corners (-0.4, -0.4), (-0.4, 0.4), (0.4, -0.4) and (0.4, 0.4).
  Each of the two loops stepped by 0.8 runs exactly twice: the inner loop adds the mesh
  for \<open>z = -0.4\<close> and the mesh for \<open>z = 0.4\<close> and ends, and the outer loop runs the inner
  loop for \<open>x = -0.4\<close> and for \<open>x = 0.4\<close> and ends.
\<close>

theorem chair_is_six_meshes:
  "createFurnitureModel Chair c =
     Some \<lparr>position = \<lparr>vec_x = lit 0, vec_y = lit 0, vec_z = lit 0\<rparr>,
           rotation = \<lparr>rot_x = lit 0, rot_y = lit 0, rot_z = lit 0\<rparr>,
           children =
             [part (BoxGeometry (lit 1) (lit 0.1) (lit 1)) (colored_material c)
                (lit 0) (lit 0.5) (lit 0),
              part (BoxGeometry (lit 1) (lit 1) (lit 0.1)) (colored_material c)
                (lit 0) (lit 1) (js_neg (lit 0.45)),
              part (CylinderGeometry (lit 0.05) (lit 0.05) (lit 0.5) None) (colored_material c)
                (js_neg (lit 0.4)) (lit 0.25) (js_neg (lit 0.4)),
              part (CylinderGeometry (lit 0.05) (lit 0.05) (lit 0.5) None) (colored_material c)
                (js_neg (lit 0.4)) (lit 0.25) (lit 0.4),
              part (CylinderGeometry (lit 0.05) (lit 0.05) (lit 0.5) None) (colored_material c)
                (lit 0.4) (lit 0.25) (js_neg (lit 0.4)),
              part (CylinderGeometry (lit 0.05) (lit 0.05) (lit 0.5) None) (colored_material c)
                (lit 0.4) (lit 0.25) (lit 0.4)]\<rparr>
   \<and> map_option (length \<circ> children) (createFurnitureModel Chair c) = Some 6
   \<and> for_z body_z (lit 0.4) (lit 0.8) (js_neg (lit 0.4)) g =
       Some (group_add (body_z (lit 0.4)) (group_add (body_z (js_neg (lit 0.4))) g))
   \<and> for_x body_x (lit 0.4) (lit 0.8) z0 hi_z step_z (js_neg (lit 0.4)) g =
       Option.bind (for_z (body_x (js_neg (lit 0.4))) hi_z step_z z0 g)
         (for_z (body_x (lit 0.4)) hi_z step_z z0)"
proof -
  have "for_z body_z (lit 0.4) (lit 0.8) (js_neg (lit 0.4)) g =
          Some (group_add (body_z (lit 0.4)) (group_add (body_z (js_neg (lit 0.4))) g))"
    unfolding for_z_twice [OF chair_enter chair_counter] chair_step by (rule refl)
  moreover have "for_x body_x (lit 0.4) (lit 0.8) z0 hi_z step_z (js_neg (lit 0.4)) g =
       Option.bind (for_z (body_x (js_neg (lit 0.4))) hi_z step_z z0 g)
         (for_z (body_x (lit 0.4)) hi_z step_z z0)"
    unfolding for_x_twice [OF chair_enter chair_counter] chair_step by (rule refl)
  ultimately show ?thesis
    unfolding createFurnitureModel_Chair
    by (simp add: part_defs chair_seat_def chair_backrest_def chair_leg_geometry_def lit_0)
qed

theorem chair_is_six_meshes_witness:
  "createFurnitureModel Chair \<lparr>color_name = ''White'', color_value = 0xffffff\<rparr> =
     Some white_chair"
proof -
  have m: "colored_material \<lparr>color_name = ''White'', color_value = 0xffffff\<rparr> =
             \<lparr>mat_instance = 0, mat_params = MeshPhongMaterial 0xffffff\<rparr>"
    by (simp add: colored_material_def)
  show ?thesis
    using chair_is_six_meshes [of "\<lparr>color_name = ''White'', color_value = 0xffffff\<rparr>",
        THEN conjunct1]
    unfolding m white_chair_def Let_def .
qed

section \<open>Materials\<close>

lemma createFurnitureModel_total: "\<exists>g. createFurnitureModel kind c = Some g"
  by (cases kind)
    (simp_all add: createFurnitureModel_Chair createFurnitureModel_Table
      createFurnitureModel_Lamp)

lemmas mesh_defs =
  chair_seat_def chair_backrest_def table_top_def lamp_base_def lamp_pole_def
  lamp_shade_def lamp_bulb_def leg_at_def new_Mesh_def
  set_position_y_def set_position_z_def set_rotation_x_def

lemma materials_of_Chair:
  "createFurnitureModel Chair c = Some g \<Longrightarrow>
     map mesh_material (children g) = replicate 6 (colored_material c)"
  by (auto simp: createFurnitureModel_Chair mesh_defs numeral_eq_Suc)

lemma materials_of_Table:
  "createFurnitureModel Table c = Some g \<Longrightarrow>
     map mesh_material (children g) = replicate 5 (colored_material c)"
  by (auto simp: createFurnitureModel_Table mesh_defs numeral_eq_Suc)

lemma materials_of_Lamp:
  "createFurnitureModel Lamp c = Some g \<Longrightarrow>
     map mesh_material (children g) = replicate 3 (colored_material c) @ [lightMaterial]"
  by (auto simp: createFurnitureModel_Lamp mesh_defs numeral_eq_Suc)

text \<open>
  C7. For every furniture kind and colour, the factory returns a group that is not empty.
  Every mesh of the group holds the coloured material, a Phong material of the colour's
  packed RGB value that is constructed once and shared, or, in the lamp only, the
  material of the bulb, a basic material of the fixed colour 0xffffcc that does not depend
  on the colour chosen. So the meshes of a group hold at most two material objects.
\<close>

theorem meshes_share_at_most_two_materials:
  "\<exists>g. createFurnitureModel kind c = Some g
       \<and> children g \<noteq> []
       \<and> (\<forall>m \<in> set (children g).
            mesh_material m = colored_material c
            \<or> (kind = Lamp \<and> mesh_material m = lightMaterial))
       \<and> card (mesh_material ` set (children g)) \<le> 2
       \<and> card ((mat_instance \<circ> mesh_material) ` set (children g)) \<le> 2
       \<and> colored_material c =
           \<lparr>mat_instance = 0, mat_params = MeshPhongMaterial (color_value c)\<rparr>
       \<and> lightMaterial =
           \<lparr>mat_instance = 1, mat_params = MeshBasicMaterial 0xffffcc 0xffffcc\<rparr>"
proof -
  obtain g where g: "createFurnitureModel kind c = Some g"
    using createFurnitureModel_total by blast
  have mats: "map mesh_material (children g) = replicate 6 (colored_material c)
      \<or> map mesh_material (children g) = replicate 5 (colored_material c)
      \<or> (kind = Lamp \<and>
          map mesh_material (children g) = replicate 3 (colored_material c) @ [lightMaterial])"
    using g materials_of_Chair materials_of_Table materials_of_Lamp by (cases kind) blast+
  have img: "mesh_material ` set (children g) = set (map mesh_material (children g))"
    by simp
  have "set (map mesh_material (children g)) \<subseteq> {colored_material c, lightMaterial}"
    and "kind \<noteq> Lamp \<Longrightarrow> set (map mesh_material (children g)) \<subseteq> {colored_material c}"
    using mats by (auto simp del: set_map)
  then have sub: "mesh_material ` set (children g) \<subseteq> {colored_material c, lightMaterial}"
    "kind \<noteq> Lamp \<Longrightarrow> mesh_material ` set (children g) \<subseteq> {colored_material c}"
    unfolding img .
  have "card (mesh_material ` set (children g)) \<le> card {colored_material c, lightMaterial}"
    by (rule card_mono) (simp_all add: sub)
  then have two: "card (mesh_material ` set (children g)) \<le> 2"
    by (simp add: card_insert_if split: if_splits)
  have "card ((mat_instance \<circ> mesh_material) ` set (children g))
          \<le> card (mesh_material ` set (children g))"
    unfolding image_comp [symmetric] by (rule card_image_le) simp
  then have two': "card ((mat_instance \<circ> mesh_material) ` set (children g)) \<le> 2"
    using two by simp
  have nonempty: "children g \<noteq> []"
    using mats by auto
  have each: "\<forall>m \<in> set (children g).
            mesh_material m = colored_material c
            \<or> (kind = Lamp \<and> mesh_material m = lightMaterial)"
    using sub by (cases "kind = Lamp") auto
  show ?thesis
    using g nonempty each two two'
    by (auto simp: colored_material_def lightMaterial_def)
qed

theorem meshes_share_at_most_two_materials_witness:
  "createFurnitureModel Lamp \<lparr>color_name = ''Red'', color_value = 0xb22222\<rparr> \<noteq> None
   \<and> map_option (map mesh_material \<circ> children)
       (createFurnitureModel Lamp \<lparr>color_name = ''Red'', color_value = 0xb22222\<rparr>) =
       Some [\<lparr>mat_instance = 0, mat_params = MeshPhongMaterial 0xb22222\<rparr>,
             \<lparr>mat_instance = 0, mat_params = MeshPhongMaterial 0xb22222\<rparr>,
             \<lparr>mat_instance = 0, mat_params = MeshPhongMaterial 0xb22222\<rparr>,
             \<lparr>mat_instance = 1, mat_params = MeshBasicMaterial 0xffffcc 0xffffcc\<rparr>]"
proof -
  obtain g where g: "createFurnitureModel Lamp \<lparr>color_name = ''Red'', color_value = 0xb22222\<rparr> = Some g"
    and l: "lightMaterial = \<lparr>mat_instance = 1, mat_params = MeshBasicMaterial 0xffffcc 0xffffcc\<rparr>"
    and c: "colored_material \<lparr>color_name = ''Red'', color_value = 0xb22222\<rparr> =
           \<lparr>mat_instance = 0, mat_params =
              MeshPhongMaterial (color_value \<lparr>color_name = ''Red'', color_value = 0xb22222\<rparr>)\<rparr>"
    using meshes_share_at_most_two_materials
      [of Lamp "\<lparr>color_name = ''Red'', color_value = 0xb22222\<rparr>"]
    by blast
  show ?thesis
    using materials_of_Lamp [OF g] g l c by (simp add: numeral_eq_Suc)
qed

section \<open>Zoom\<close>

lemma max_min_clamp: "Math_max (lit 1.5) (Math_min (lit 5) v) = clamp v (lit 1.5) (lit 5)"
  unfolding lit_5 lit_1_5
  by (cases v) (auto simp: Math_max_def Math_min_def clamp_def sval_def)

lemma clamp_in_range: "v \<noteq> NaN \<Longrightarrow> in_zoom_range (clamp v (lit 1.5) (lit 5))"
  unfolding lit_5 lit_1_5 in_zoom_range_def
  by (cases v) (auto simp: clamp_def sval_def)



lemma sub_zero: "is_double a \<Longrightarrow> js_sub a (lit 0) = a"
  unfolding lit_0 by (cases a) (auto simp: js_round_def js_sub_def sval_def)


lemma three_by_tenth: "clamp (js_div (lit 3) (lit 0.1)) (lit 1.5) (lit 5) = lit 5"
  by code_simp



lemma camera_distance_pinchUpdate:
  "cameraRef st = Some camera \<Longrightarrow>
     camera_distance (pinchUpdate s st) =
       Some (clamp (js_div (initialCameraZRef st) s) (lit 1.5) (lit 5))"
  by (simp add: pinchUpdate_def camera_distance_def set_position_z_def max_min_clamp)


lemma started_camera:
  "cameraRef started =
     Some \<lparr>position = \<lparr>vec_x = lit 0, vec_y = lit 1, vec_z = lit 3\<rparr>,
              rotation = \<lparr>rot_x = lit 0, rot_y = lit 0, rot_z = lit 0\<rparr>,
              fov = lit 75, aspect = js_div (lit 1080) (lit 1920),
              near = lit 0.1, far = lit 1000\<rparr>"
  by (simp add: started_def)



section \<open>Rotation\<close>

lemma started_object: "objectRef started = Some (0, white_chair)"
  by (simp add: started_def)

text \<open>
  C2. When a model is attached, a pan update with the raw sample \<open>(translationX,
  translationY)\<close> computes the delta as the sample minus the last sample, adds
  \<open>delta.y * 0.01\<close> to \<open>orientation.x\<close> and \<open>delta.x * 0.01\<close> to \<open>orientation.y\<close>, sets the
  rotation x and y of the model to the accumulated orientation, leaving the rest of the
  model as it is, and stores the raw sample as the last sample.
\<close>

theorem pan_update_accumulates:
  "objectRef st = Some (i, ob) \<Longrightarrow>
     pan_delta (lastPositionRef st) tx ty =
       \<lparr>pos_x = js_sub tx (pos_x (lastPositionRef st)),
        pos_y = js_sub ty (pos_y (lastPositionRef st))\<rparr>
   \<and> rotationRef (panUpdate tx ty st) =
       \<lparr>pos_x = js_add (pos_x (rotationRef st))
                 (js_mul (pos_y (pan_delta (lastPositionRef st) tx ty)) (lit 0.01)),
        pos_y = js_add (pos_y (rotationRef st))
                 (js_mul (pos_x (pan_delta (lastPositionRef st) tx ty)) (lit 0.01))\<rparr>
   \<and> objectRef (panUpdate tx ty st) =
       Some (i, ob\<lparr>rotation := (rotation ob)
                      \<lparr>rot_x := pos_x (rotationRef (panUpdate tx ty st)),
                       rot_y := pos_y (rotationRef (panUpdate tx ty st))\<rparr>\<rparr>)
   \<and> model_rotation (panUpdate tx ty st) = Some (rotationRef (panUpdate tx ty st))
   \<and> lastPositionRef (panUpdate tx ty st) = \<lparr>pos_x = tx, pos_y = ty\<rparr>"
  by (simp add: panUpdate_def pan_delta_def model_rotation_def Let_def
      set_rotation_x_def set_rotation_y_def)

theorem pan_update_accumulates_witness:
  "objectRef started = Some (0, white_chair)
   \<and> rotationRef (panUpdate (lit 3) (lit 4) started) =
       \<lparr>pos_x = js_add (lit 0) (js_mul (js_sub (lit 4) (lit 0)) (lit 0.01)),
        pos_y = js_add (lit 0) (js_mul (js_sub (lit 3) (lit 0)) (lit 0.01))\<rparr>
   \<and> model_rotation (panUpdate (lit 3) (lit 4) started) =
       Some (rotationRef (panUpdate (lit 3) (lit 4) started))
   \<and> lastPositionRef (panUpdate (lit 3) (lit 4) started) = \<lparr>pos_x = lit 3, pos_y = lit 4\<rparr>"
proof -
  have h: "rotationRef started = \<lparr>pos_x = lit 0, pos_y = lit 0\<rparr>"
    "lastPositionRef started = \<lparr>pos_x = lit 0, pos_y = lit 0\<rparr>"
    by (simp_all add: started_def)
  show ?thesis
    using pan_update_accumulates [OF started_object, of "lit 3" "lit 4"]
    by (simp add: h pan_delta_def started_object)
qed

text \<open>
  C8. When a model is attached, the end of a pan gesture stores the rotation x and y of
  the model into the orientation state and resets the last sample to (0, 0). So the first
  update of the next pan gesture has its raw sample as its delta, whatever the previous
  gesture's last sample was: it turns the model from its rotation by the raw sample
  times 0.01.
\<close>

theorem pan_end_resyncs_and_resets:
  "objectRef st = Some (i, ob) \<Longrightarrow>
     rotationRef (panEnd st) = \<lparr>pos_x = rot_x (rotation ob), pos_y = rot_y (rotation ob)\<rparr>
   \<and> lastPositionRef (panEnd st) = \<lparr>pos_x = lit 0, pos_y = lit 0\<rparr>
   \<and> (is_double tx \<and> is_double ty \<longrightarrow>
        pan_delta (lastPositionRef (panEnd st)) tx ty = \<lparr>pos_x = tx, pos_y = ty\<rparr>
      \<and> model_rotation (panUpdate tx ty (panEnd st)) =
          Some \<lparr>pos_x = js_add (rot_x (rotation ob)) (js_mul ty (lit 0.01)),
                pos_y = js_add (rot_y (rotation ob)) (js_mul tx (lit 0.01))\<rparr>)"
proof (intro conjI impI)
  assume ob: "objectRef st = Some (i, ob)"
  show rot: "rotationRef (panEnd st) =
               \<lparr>pos_x = rot_x (rotation ob), pos_y = rot_y (rotation ob)\<rparr>"
    and last: "lastPositionRef (panEnd st) = \<lparr>pos_x = lit 0, pos_y = lit 0\<rparr>"
    using ob by (simp_all add: panEnd_def)
  assume "is_double tx \<and> is_double ty"
  then have delta: "pan_delta \<lparr>pos_x = lit 0, pos_y = lit 0\<rparr> tx ty = \<lparr>pos_x = tx, pos_y = ty\<rparr>"
    by (simp add: pan_delta_def sub_zero)
  then show "pan_delta (lastPositionRef (panEnd st)) tx ty = \<lparr>pos_x = tx, pos_y = ty\<rparr>"
    by (simp only: last)
  have same: "objectRef (panEnd st) = Some (i, ob)"
    using ob by (simp add: panEnd_def)
  show "model_rotation (panUpdate tx ty (panEnd st)) =
          Some \<lparr>pos_x = js_add (rot_x (rotation ob)) (js_mul ty (lit 0.01)),
                pos_y = js_add (rot_y (rotation ob)) (js_mul tx (lit 0.01))\<rparr>"
    using delta
    by (simp add: panUpdate_def same rot last model_rotation_def Let_def
        set_rotation_x_def set_rotation_y_def)
qed

lemma doubles_7_2: "is_double (lit 7) \<and> is_double (js_neg (lit 2))"
  by code_simp

theorem pan_end_resyncs_and_resets_witness:
  "objectRef (panUpdate (lit 30) (lit 40) started) =
     Some (0, white_chair\<lparr>rotation := (rotation white_chair)
                 \<lparr>rot_x := pos_x (rotationRef (panUpdate (lit 30) (lit 40) started)),
                  rot_y := pos_y (rotationRef (panUpdate (lit 30) (lit 40) started))\<rparr>\<rparr>)
   \<and> lastPositionRef (panUpdate (lit 30) (lit 40) started) = \<lparr>pos_x = lit 30, pos_y = lit 40\<rparr>
   \<and> lastPositionRef (panEnd (panUpdate (lit 30) (lit 40) started)) =
       \<lparr>pos_x = lit 0, pos_y = lit 0\<rparr>
   \<and> is_double (lit 7) \<and> is_double (js_neg (lit 2))
   \<and> pan_delta (lastPositionRef (panEnd (panUpdate (lit 30) (lit 40) started)))
       (lit 7) (js_neg (lit 2)) = \<lparr>pos_x = lit 7, pos_y = js_neg (lit 2)\<rparr>"
proof -
  have ob: "objectRef (panUpdate (lit 30) (lit 40) started) =
     Some (0, white_chair\<lparr>rotation := (rotation white_chair)
                 \<lparr>rot_x := pos_x (rotationRef (panUpdate (lit 30) (lit 40) started)),
                  rot_y := pos_y (rotationRef (panUpdate (lit 30) (lit 40) started))\<rparr>\<rparr>)"
    and last: "lastPositionRef (panUpdate (lit 30) (lit 40) started) =
       \<lparr>pos_x = lit 30, pos_y = lit 40\<rparr>"
    by (simp_all add: panUpdate_def started_object Let_def set_rotation_x_def
        set_rotation_y_def)
  have "lastPositionRef (panEnd (panUpdate (lit 30) (lit 40) started)) =
          \<lparr>pos_x = lit 0, pos_y = lit 0\<rparr>
      \<and> pan_delta (lastPositionRef (panEnd (panUpdate (lit 30) (lit 40) started)))
          (lit 7) (js_neg (lit 2)) = \<lparr>pos_x = lit 7, pos_y = js_neg (lit 2)\<rparr>"
    using pan_end_resyncs_and_resets [OF ob, of "lit 7" "js_neg (lit 2)"] doubles_7_2
    by (elim conjE impE) simp_all
  then show ?thesis
    using doubles_7_2 ob last by blast
qed

section \<open>Absent objects\<close>

text \<open>
  C10. A pan update with no model attached and a pinch update with no camera return at
  once and leave the whole state as it is. An animation frame while the renderer, the
  scene or the camera is missing issues no render call: it only records the handle of the
  next frame and signals the end of the frame, so the orientation, the last pan sample,
  the zoom anchor, the camera, the scene and the model are unchanged. None of the three
  is an error.
\<close>

theorem absent_objects_are_skipped:
  "(objectRef st = None \<longrightarrow> panUpdate tx ty st = st)
   \<and> (cameraRef st = None \<longrightarrow> pinchUpdate s st = st)
   \<and> (rendererRef st = None \<or> sceneRef st = None \<or> cameraRef st = None \<longrightarrow>
        render h st = st\<lparr>animationRef := Some h, endFrame_calls := Suc (endFrame_calls st)\<rparr>
      \<and> render_calls (render h st) = render_calls st
      \<and> rotationRef (render h st) = rotationRef st
      \<and> lastPositionRef (render h st) = lastPositionRef st
      \<and> initialCameraZRef (render h st) = initialCameraZRef st
      \<and> cameraRef (render h st) = cameraRef st
      \<and> sceneRef (render h st) = sceneRef st
      \<and> objectRef (render h st) = objectRef st)"
  by (auto simp: panUpdate_def pinchUpdate_def render_def Let_def)

theorem absent_objects_are_skipped_witness:
  "objectRef initial_App = None
   \<and> panUpdate (lit 3) (lit 4) initial_App = initial_App
   \<and> cameraRef initial_App = None
   \<and> pinchUpdate (lit 2) initial_App = initial_App
   \<and> rendererRef initial_App = None
   \<and> render 1 initial_App =
       initial_App\<lparr>animationRef := Some 1, endFrame_calls := Suc (endFrame_calls initial_App)\<rparr>
   \<and> render_calls (render 1 initial_App) = render_calls initial_App"
proof -
  have h: "objectRef initial_App = None" "cameraRef initial_App = None"
    "rendererRef initial_App = None"
    by (simp_all add: initial_App_def)
  show ?thesis
    using absent_objects_are_skipped [of initial_App "lit 3" "lit 4" "lit 2" 1] h
    by simp
qed

section \<open>Rebuilding the model\<close>

lemma updateFurnitureModel_no_scene:
  "sceneRef st = None \<Longrightarrow> updateFurnitureModel st = Some st"
  by (simp add: updateFurnitureModel_def)

lemma updateFurnitureModel_scene:
  assumes "sceneRef st = Some scene"
  shows "\<exists>g. createFurnitureModel (item_type (selectedItem st)) (selectedColor st) = Some g
           \<and> updateFurnitureModel st =
               Some (st\<lparr>objectRef := Some (objects_created st, reset_model g),
                        sceneRef := Some (remove_existing st scene @ [Model (objects_created st)]),
                        objects_created := Suc (objects_created st)\<rparr>)"
proof -
  obtain g where "createFurnitureModel (item_type (selectedItem st)) (selectedColor st) = Some g"
    using createFurnitureModel_total by blast
  then show ?thesis
    using assms by (simp add: updateFurnitureModel_def Let_def)
qed

lemma white_chair_eq:
  "createFurnitureModel Chair \<lparr>color_name = ''White'', color_value = 0xffffff\<rparr> =
     Some white_chair"
proof -
  have m: "colored_material \<lparr>color_name = ''White'', color_value = 0xffffff\<rparr> =
             \<lparr>mat_instance = 0, mat_params = MeshPhongMaterial 0xffffff\<rparr>"
    by (simp add: colored_material_def)
  show ?thesis
    unfolding createFurnitureModel_Chair m white_chair_def Let_def
    by (simp add: part_defs chair_seat_def chair_backrest_def chair_leg_geometry_def lit_0)
qed

lemma reset_white_chair: "reset_model white_chair = white_chair"
  by (simp add: reset_model_def white_chair_def position_set_def Let_def)

lemma onContextCreate_started: "onContextCreate example_gl 1 initial_App = Some started"
  by (simp add: onContextCreate_def scene_add_def updateFurnitureModel_def initial_App_def Let_def
      FURNITURE_ITEMS_def COLOR_OPTIONS_def white_chair_eq reset_white_chair
      remove_existing_def render_def started_def new_camera_def example_gl_def
      set_position_y_def set_position_z_def origin_def no_rotation_def position_set_def lit_0)

lemma run_started: "run (ContextCreate example_gl 1 # evs) initial_App = run evs started"
  unfolding run.simps handle.simps onContextCreate_started by simp

lemma updateFurnitureModel_total: "\<exists>st'. updateFurnitureModel st = Some st'"
  using updateFurnitureModel_no_scene [of st] updateFurnitureModel_scene [of st]
  by (cases "sceneRef st") auto

lemma updateFurnitureModel_frame:
  assumes "updateFurnitureModel st = Some st'"
  shows "rotationRef st' = rotationRef st" "lastPositionRef st' = lastPositionRef st"
    "initialCameraZRef st' = initialCameraZRef st" "cameraRef st' = cameraRef st"
    "camera_distance st' = camera_distance st"
  using assms updateFurnitureModel_no_scene [of st] updateFurnitureModel_scene [of st]
  by (cases "sceneRef st"; auto simp: camera_distance_def)+

lemma updateFurnitureModel_model:
  assumes "updateFurnitureModel st = Some st'" and "sceneRef st = Some scene"
  shows "\<exists>ob. objectRef st' = Some (objects_created st, ob)
           \<and> position ob = \<lparr>vec_x = lit 0, vec_y = lit 0, vec_z = lit 0\<rparr>
           \<and> rotation ob = \<lparr>rot_x = lit 0, rot_y = lit 0, rot_z = lit 0\<rparr>
           \<and> sceneRef st' = Some (remove_existing st scene @ [Model (objects_created st)])"
  using assms updateFurnitureModel_scene [OF assms(2)]
  by (auto simp: reset_model_def position_set_def)

lemma detach_leaves_no_model:
  assumes "attach_inv st" and "sceneRef st = Some scene"
  shows "filter is_Model (remove_existing st scene) = []"
proof (cases "objectRef st")
  case None
  then show ?thesis
    using assms by (simp add: attach_inv_def attached_models_def remove_existing_def)
next
  case (Some p)
  obtain i ob where p: "p = (i, ob)" by (cases p)
  have "filter is_Model scene = [] \<or> filter is_Model scene = [Model i]"
    using assms Some p by (simp add: attach_inv_def attached_models_def)
  then have "remove1 (Model i) (filter is_Model scene) = []"
    by auto
  then show ?thesis
    using Some p by (simp add: remove_existing_def filter_remove1)
qed

lemma updateFurnitureModel_attach_inv:
  assumes "attach_inv st" and "updateFurnitureModel st = Some st'"
  shows "attach_inv st'"
proof (cases "sceneRef st")
  case None
  then show ?thesis
    using assms updateFurnitureModel_no_scene [of st] by simp
next
  case (Some scene)
  obtain ob where "objectRef st' = Some (objects_created st, ob)"
    and "sceneRef st' = Some (remove_existing st scene @ [Model (objects_created st)])"
    using updateFurnitureModel_model [OF assms(2) Some] by blast
  then show ?thesis
    using detach_leaves_no_model [OF assms(1) Some]
    by (simp add: attach_inv_def attached_models_def)
qed

lemma attach_inv_cong:
  assumes "sceneRef st' = sceneRef st"
    and "map_option fst (objectRef st') = map_option fst (objectRef st)"
  shows "attach_inv st' = attach_inv st"
  using assms
  by (cases "objectRef st"; cases "objectRef st'")
    (auto simp: attach_inv_def attached_models_def)

lemma render_frame:
  "sceneRef (render h st) = sceneRef st" "objectRef (render h st) = objectRef st"
  "cameraRef (render h st) = cameraRef st"
  "initialCameraZRef (render h st) = initialCameraZRef st"
  by (simp_all add: render_def Let_def)

lemma pan_frame:
  "sceneRef (panUpdate tx ty st) = sceneRef st"
  "map_option fst (objectRef (panUpdate tx ty st)) = map_option fst (objectRef st)"
  "cameraRef (panUpdate tx ty st) = cameraRef st"
  "initialCameraZRef (panUpdate tx ty st) = initialCameraZRef st"
  "sceneRef (panEnd st) = sceneRef st" "objectRef (panEnd st) = objectRef st"
  "cameraRef (panEnd st) = cameraRef st"
  "initialCameraZRef (panEnd st) = initialCameraZRef st"
  by (cases "objectRef st"; simp add: panUpdate_def panEnd_def Let_def split_beta)+

lemma pinch_frame:
  "sceneRef (pinchStart st) = sceneRef st" "objectRef (pinchStart st) = objectRef st"
  "sceneRef (pinchUpdate s st) = sceneRef st" "objectRef (pinchUpdate s st) = objectRef st"
  "sceneRef (pinchEnd st) = sceneRef st" "objectRef (pinchEnd st) = objectRef st"
  by (cases "cameraRef st"; simp add: pinchStart_def pinchUpdate_def pinchEnd_def)+

lemma onContextCreate_eq:
  "onContextCreate gl h st =
     map_option (\<lambda>st. (render h st)\<lparr>isLoading := False\<rparr>)
       (updateFurnitureModel
          (st\<lparr>isLoading := True,
              rendererRef :=
                Some \<lparr>width = drawingBufferWidth gl, height = drawingBufferHeight gl,
                      clearColor = 0xf0f0f0\<rparr>,
              cameraRef := Some (new_camera gl),
              sceneRef :=
                Some [AmbientLight 0xffffff (lit 0.5),
                      DirectionalLight 0xffffff (lit 0.8)
                        (position_set (lit 5) (lit 10) (lit 7.5)) True,
                      GridHelper (lit 10) (lit 10) 0xcccccc 0xcccccc]\<rparr>))"
  by (simp add: onContextCreate_def scene_add_def Let_def map_option_case bind_eq_None_conv
      split: option.splits)

lemma handle_total: "\<exists>st'. handle e st = Some st'"
  using updateFurnitureModel_total
  by (cases e) (auto simp: onContextCreate_eq setSelectedItem_def setSelectedColor_def)

lemma handle_attach_inv:
  assumes "attach_inv st" and "handle e st = Some st'"
  shows "attach_inv st'"
proof (cases e)
  case (ContextCreate gl h)
  let ?st1 = "st\<lparr>isLoading := True,
      rendererRef := Some \<lparr>width = drawingBufferWidth gl, height = drawingBufferHeight gl,
                          clearColor = 0xf0f0f0\<rparr>,
      cameraRef := Some (new_camera gl),
      sceneRef := Some [AmbientLight 0xffffff (lit 0.5),
                   DirectionalLight 0xffffff (lit 0.8)
                     (position_set (lit 5) (lit 10) (lit 7.5)) True,
                   GridHelper (lit 10) (lit 10) 0xcccccc 0xcccccc]\<rparr>"
  obtain st2 where st2: "updateFurnitureModel ?st1 = Some st2"
    and st': "st' = (render h st2)\<lparr>isLoading := False\<rparr>"
    using assms(2) ContextCreate by (auto simp: onContextCreate_eq)
  have "attach_inv ?st1"
    by (simp add: attach_inv_def attached_models_def)
  then have "attach_inv st2"
    using st2 by (rule updateFurnitureModel_attach_inv)
  moreover have "attach_inv st' = attach_inv st2"
    unfolding st' by (rule attach_inv_cong) (simp_all add: render_frame)
  ultimately show ?thesis
    by simp
next
  case (SelectItem item)
  have "attach_inv (st\<lparr>selectedItem := item\<rparr>)"
    using assms(1) attach_inv_cong [of "st\<lparr>selectedItem := item\<rparr>" st] by simp
  then show ?thesis
    using assms SelectItem updateFurnitureModel_attach_inv [of "st\<lparr>selectedItem := item\<rparr>" st']
    by (auto simp: setSelectedItem_def split: if_splits)
next
  case (SelectColor color)
  have "attach_inv (st\<lparr>selectedColor := color\<rparr>)"
    using assms(1) attach_inv_cong [of "st\<lparr>selectedColor := color\<rparr>" st] by simp
  then show ?thesis
    using assms SelectColor
      updateFurnitureModel_attach_inv [of "st\<lparr>selectedColor := color\<rparr>" st']
    by (auto simp: setSelectedColor_def split: if_splits)
next
  case (PanUpdate tx ty)
  then show ?thesis
    using assms attach_inv_cong [of "panUpdate tx ty st" st] by (auto simp: pan_frame)
next
  case PanEnd
  then show ?thesis
    using assms attach_inv_cong [of "panEnd st" st] by (auto simp: pan_frame)
next
  case PinchStart
  then show ?thesis
    using assms attach_inv_cong [of "pinchStart st" st] by (auto simp: pinch_frame)
next
  case (PinchUpdate s)
  then show ?thesis
    using assms attach_inv_cong [of "pinchUpdate s st" st] by (auto simp: pinch_frame)
next
  case PinchEnd
  then show ?thesis
    using assms attach_inv_cong [of "pinchEnd st" st] by (auto simp: pinch_frame)
next
  case (Frame h)
  then show ?thesis
    using assms attach_inv_cong [of "render h st" st] by (auto simp: render_frame)
qed

lemma run_attach_inv: "attach_inv st \<Longrightarrow> run evs st = Some st' \<Longrightarrow> attach_inv st'"
proof (induction evs arbitrary: st)
  case Nil
  then show ?case by simp
next
  case (Cons e evs)
  obtain st1 where st1: "handle e st = Some st1"
    using handle_total by blast
  then have "attach_inv st1"
    using Cons.prems(1) handle_attach_inv by blast
  then show ?case
    using Cons.IH [of st1] Cons.prems(2) st1 by simp
qed

lemma attach_inv_initial: "attach_inv initial_App"
  by (simp add: attach_inv_def attached_models_def initial_App_def)

lemma onContextCreate_attaches_one:
  "\<exists>st'. onContextCreate gl h st = Some st'
        \<and> attached_models st' = [Model (objects_created st)]"
proof -
  let ?scene = "[AmbientLight 0xffffff (lit 0.5),
                 DirectionalLight 0xffffff (lit 0.8)
                   (position_set (lit 5) (lit 10) (lit 7.5)) True,
                 GridHelper (lit 10) (lit 10) 0xcccccc 0xcccccc]"
  let ?st1 = "st\<lparr>isLoading := True,
      rendererRef := Some \<lparr>width = drawingBufferWidth gl, height = drawingBufferHeight gl,
                          clearColor = 0xf0f0f0\<rparr>,
      cameraRef := Some (new_camera gl),
      sceneRef := Some ?scene\<rparr>"
  obtain st2 where st2: "updateFurnitureModel ?st1 = Some st2"
    using updateFurnitureModel_total by blast
  have scene: "sceneRef ?st1 = Some ?scene"
    by simp
  have "filter is_Model (remove_existing ?st1 ?scene) = []"
    by (cases "objectRef st") (auto simp: remove_existing_def filter_remove1)
  moreover have "sceneRef st2 =
      Some (remove_existing ?st1 ?scene @ [Model (objects_created ?st1)])"
    using updateFurnitureModel_model [OF st2 scene] by blast
  ultimately have "attached_models st2 = [Model (objects_created st)]"
    by (simp add: attached_models_def)
  then have "attached_models ((render h st2)\<lparr>isLoading := False\<rparr>) = [Model (objects_created st)]"
    by (simp add: attached_models_def render_frame)
  then show ?thesis
    using st2 by (simp add: onContextCreate_eq)
qed

text \<open>
  C6. In every state that the component reaches, at most one model is attached to the
  scene. The rebuild step, with whatever selection it is called, when there is a scene,
  first detaches the model that \<open>objectRef\<close> points to, if there is one, which leaves the
  scene with no model; it then constructs the new group, sets its position and its
  rotation to zero, and attaches it to that scene, which then holds exactly this one
  model. The rebuild at the end of \<open>onContextCreate\<close> attaches the one model of the new scene.
\<close>

theorem at_most_one_model_attached:
  "run evs initial_App = Some st \<Longrightarrow>
     length (attached_models st) \<le> 1
   \<and> (\<forall>scene. sceneRef st = Some scene \<longrightarrow>
        (\<exists>st' ob.
           updateFurnitureModel (st\<lparr>selectedItem := item, selectedColor := color\<rparr>) = Some st'
         \<and> remove_existing st scene =
             (case objectRef st of None \<Rightarrow> scene | Some (i, old) \<Rightarrow> remove1 (Model i) scene)
         \<and> filter is_Model (remove_existing st scene) = []
         \<and> objectRef st' = Some (objects_created st, ob)
         \<and> position ob = \<lparr>vec_x = lit 0, vec_y = lit 0, vec_z = lit 0\<rparr>
         \<and> rotation ob = \<lparr>rot_x = lit 0, rot_y = lit 0, rot_z = lit 0\<rparr>
         \<and> sceneRef st' = Some (remove_existing st scene @ [Model (objects_created st)])
         \<and> attached_models st' = [Model (objects_created st)]))
   \<and> (\<exists>st'. onContextCreate gl h st = Some st'
          \<and> attached_models st' = [Model (objects_created st)])"
proof -
  let ?st0 = "st\<lparr>selectedItem := item, selectedColor := color\<rparr>"
  assume "run evs initial_App = Some st"
  then have inv: "attach_inv st"
    using attach_inv_initial run_attach_inv by blast
  have one: "length (attached_models st) \<le> 1"
    using inv by (auto simp: attach_inv_def split: option.splits)
  have inv0: "attach_inv ?st0"
    using inv attach_inv_cong [of ?st0 st] by simp
  have rebuild: "\<exists>st' ob.
           updateFurnitureModel ?st0 = Some st'
         \<and> remove_existing st scene =
             (case objectRef st of None \<Rightarrow> scene | Some (i, old) \<Rightarrow> remove1 (Model i) scene)
         \<and> filter is_Model (remove_existing st scene) = []
         \<and> objectRef st' = Some (objects_created st, ob)
         \<and> position ob = \<lparr>vec_x = lit 0, vec_y = lit 0, vec_z = lit 0\<rparr>
         \<and> rotation ob = \<lparr>rot_x = lit 0, rot_y = lit 0, rot_z = lit 0\<rparr>
         \<and> sceneRef st' = Some (remove_existing st scene @ [Model (objects_created st)])
         \<and> attached_models st' = [Model (objects_created st)]"
    if scene: "sceneRef st = Some scene" for scene
  proof -
    have scene0: "sceneRef ?st0 = Some scene"
      using scene by simp
    have rem: "remove_existing ?st0 scene = remove_existing st scene"
      by (simp add: remove_existing_def)
    obtain st' where st': "updateFurnitureModel ?st0 = Some st'"
      using updateFurnitureModel_total by blast
    obtain ob where ob: "objectRef st' = Some (objects_created st, ob)"
      "position ob = \<lparr>vec_x = lit 0, vec_y = lit 0, vec_z = lit 0\<rparr>"
      "rotation ob = \<lparr>rot_x = lit 0, rot_y = lit 0, rot_z = lit 0\<rparr>"
      "sceneRef st' = Some (remove_existing st scene @ [Model (objects_created st)])"
      using updateFurnitureModel_model [OF st' scene0] rem by auto
    have none: "filter is_Model (remove_existing st scene) = []"
      using detach_leaves_no_model [OF inv0 scene0] rem by simp
    have "attached_models st' = [Model (objects_created st)]"
      using ob(4) none by (simp add: attached_models_def)
    then show ?thesis
      using st' ob none by (simp add: remove_existing_def)
  qed
  show ?thesis
    using one rebuild onContextCreate_attaches_one [of gl h st] by blast
qed

theorem at_most_one_model_attached_witness:
  "run [ContextCreate example_gl 1] initial_App = Some started
   \<and> attached_models started = [Model 0]
   \<and> sceneRef started =
       Some [AmbientLight 0xffffff (lit 0.5),
             DirectionalLight 0xffffff (lit 0.8)
               \<lparr>vec_x = lit 5, vec_y = lit 10, vec_z = lit 7.5\<rparr> True,
             GridHelper (lit 10) (lit 10) 0xcccccc 0xcccccc,
             Model 0]
   \<and> map_option attached_models
       (updateFurnitureModel
          (started\<lparr>selectedItem := \<lparr>item_id = 3, item_name = ''Floor Lamp'', item_type = Lamp\<rparr>,
                   selectedColor := \<lparr>color_name = ''Blue'', color_value = 0x4169e1\<rparr>\<rparr>))
       = Some [Model 1]
   \<and> map_option sceneRef
       (updateFurnitureModel
          (started\<lparr>selectedItem := \<lparr>item_id = 3, item_name = ''Floor Lamp'', item_type = Lamp\<rparr>,
                   selectedColor := \<lparr>color_name = ''Blue'', color_value = 0x4169e1\<rparr>\<rparr>))
       = Some (Some [AmbientLight 0xffffff (lit 0.5),
                     DirectionalLight 0xffffff (lit 0.8)
                       \<lparr>vec_x = lit 5, vec_y = lit 10, vec_z = lit 7.5\<rparr> True,
                     GridHelper (lit 10) (lit 10) 0xcccccc 0xcccccc,
                     Model 1])
   \<and> map_option attached_models (onContextCreate example_gl 2 started) = Some [Model 1]"
proof -
  let ?lamp = "\<lparr>item_id = 3, item_name = ''Floor Lamp'', item_type = Lamp\<rparr>"
  let ?blue = "\<lparr>color_name = ''Blue'', color_value = 0x4169e1\<rparr>"
  have r: "run [ContextCreate example_gl 1] initial_App = Some started"
    unfolding run_started by simp
  have s: "sceneRef started =
       Some [AmbientLight 0xffffff (lit 0.5),
             DirectionalLight 0xffffff (lit 0.8)
               \<lparr>vec_x = lit 5, vec_y = lit 10, vec_z = lit 7.5\<rparr> True,
             GridHelper (lit 10) (lit 10) 0xcccccc 0xcccccc,
             Model 0]"
    and c: "objects_created started = 1" and ob: "objectRef started = Some (0, white_chair)"
    by (simp_all add: started_def)
  have a: "attached_models started = [Model 0]"
    by (simp add: attached_models_def s)
  obtain st' st'' where
    "updateFurnitureModel (started\<lparr>selectedItem := ?lamp, selectedColor := ?blue\<rparr>) = Some st'"
    and "sceneRef st' =
           Some (remove_existing started
                   [AmbientLight 0xffffff (lit 0.5),
                    DirectionalLight 0xffffff (lit 0.8)
                      \<lparr>vec_x = lit 5, vec_y = lit 10, vec_z = lit 7.5\<rparr> True,
                    GridHelper (lit 10) (lit 10) 0xcccccc 0xcccccc,
                    Model 0] @ [Model (objects_created started)])"
    and "attached_models st' = [Model (objects_created started)]"
    and "onContextCreate example_gl 2 started = Some st''"
    and "attached_models st'' = [Model (objects_created started)]"
    using at_most_one_model_attached
      [OF r, where item = ?lamp and color = ?blue and gl = example_gl and h = 2] s
    by blast
  then show ?thesis
    using r s a by (simp add: c remove_existing_def ob)
qed

section \<open>The zoom range\<close>

lemma div_not_NaN: "in_zoom_range a \<Longrightarrow> s \<noteq> NaN \<Longrightarrow> js_div a s \<noteq> NaN"
  unfolding in_zoom_range_def lit_1_5 lit_5
  by (cases a; cases s) (auto simp: sval_def js_round_def split: option.splits if_splits)

lemma zoom_inv_cong:
  assumes "initialCameraZRef st' = initialCameraZRef st" and "cameraRef st' = cameraRef st"
  shows "zoom_inv st' = zoom_inv st"
  using assms by (simp add: zoom_inv_def camera_distance_def)

lemma pinchStart_zoom_inv: "zoom_inv st \<Longrightarrow> zoom_inv (pinchStart st)"
  by (cases "cameraRef st") (auto simp: zoom_inv_def camera_distance_def pinchStart_def)

lemma pinchEnd_zoom_inv: "zoom_inv st \<Longrightarrow> zoom_inv (pinchEnd st)"
  by (cases "cameraRef st") (auto simp: zoom_inv_def camera_distance_def pinchEnd_def)

lemma pinchUpdate_zoom_inv:
  assumes "zoom_inv st" and "s \<noteq> NaN"
  shows "zoom_inv (pinchUpdate s st)"
proof (cases "cameraRef st")
  case None
  then show ?thesis
    using assms(1) by (simp add: pinchUpdate_def)
next
  case (Some camera)
  have "js_div (initialCameraZRef st) s \<noteq> NaN"
    using assms by (simp add: zoom_inv_def div_not_NaN)
  then have "in_zoom_range (clamp (js_div (initialCameraZRef st) s) (lit 1.5) (lit 5))"
    by (rule clamp_in_range)
  moreover have "initialCameraZRef (pinchUpdate s st) = initialCameraZRef st"
    using Some by (simp add: pinchUpdate_def)
  ultimately show ?thesis
    using assms(1) camera_distance_pinchUpdate [OF Some, of s] by (simp add: zoom_inv_def)
qed

lemma three_in_range: "in_zoom_range (lit 3)"
  by code_simp

lemma new_camera_distance: "vec_z (position (new_camera gl)) = lit 3"
  by (simp add: new_camera_def set_position_y_def set_position_z_def)

lemma onContextCreate_camera:
  assumes "onContextCreate gl h st = Some st'"
  shows "cameraRef st' = Some (new_camera gl)"
    and "initialCameraZRef st' = initialCameraZRef st"
proof -
  obtain st2 where st2: "updateFurnitureModel
          (st\<lparr>isLoading := True,
              rendererRef :=
                Some \<lparr>width = drawingBufferWidth gl, height = drawingBufferHeight gl,
                      clearColor = 0xf0f0f0\<rparr>,
              cameraRef := Some (new_camera gl),
              sceneRef :=
                Some [AmbientLight 0xffffff (lit 0.5),
                      DirectionalLight 0xffffff (lit 0.8)
                        (position_set (lit 5) (lit 10) (lit 7.5)) True,
                      GridHelper (lit 10) (lit 10) 0xcccccc 0xcccccc]\<rparr>) = Some st2"
    and st': "st' = (render h st2)\<lparr>isLoading := False\<rparr>"
    using assms by (auto simp: onContextCreate_eq)
  show "cameraRef st' = Some (new_camera gl)"
    and "initialCameraZRef st' = initialCameraZRef st"
    using updateFurnitureModel_frame(3,4) [OF st2] by (simp_all add: st' render_frame)
qed

lemma handle_zoom_inv:
  assumes "zoom_inv st" and "e \<noteq> PinchUpdate NaN" and "handle e st = Some st'"
  shows "zoom_inv st'"
proof (cases e)
  case (ContextCreate gl h)
  then have "cameraRef st' = Some (new_camera gl)"
    and "initialCameraZRef st' = initialCameraZRef st"
    using assms(3) onContextCreate_camera by simp_all
  then show ?thesis
    using assms(1)
    by (simp add: zoom_inv_def camera_distance_def new_camera_distance three_in_range)
next
  case (SelectItem item)
  then show ?thesis
    using assms(1,3) updateFurnitureModel_frame(3,4) [of "st\<lparr>selectedItem := item\<rparr>" st']
      zoom_inv_cong [of st' st]
    by (auto simp: setSelectedItem_def split: if_splits)
next
  case (SelectColor color)
  then show ?thesis
    using assms(1,3) updateFurnitureModel_frame(3,4) [of "st\<lparr>selectedColor := color\<rparr>" st']
      zoom_inv_cong [of st' st]
    by (auto simp: setSelectedColor_def split: if_splits)
next
  case (PanUpdate tx ty)
  then show ?thesis
    using assms(1,3) zoom_inv_cong [of "panUpdate tx ty st" st] by (auto simp: pan_frame)
next
  case PanEnd
  then show ?thesis
    using assms(1,3) zoom_inv_cong [of "panEnd st" st] by (auto simp: pan_frame)
next
  case PinchStart
  then show ?thesis
    using assms(1,3) pinchStart_zoom_inv by auto
next
  case (PinchUpdate s)
  then show ?thesis
    using assms pinchUpdate_zoom_inv by auto
next
  case PinchEnd
  then show ?thesis
    using assms(1,3) pinchEnd_zoom_inv by auto
next
  case (Frame h)
  then show ?thesis
    using assms(1,3) zoom_inv_cong [of "render h st" st] by (auto simp: render_frame)
qed

lemma run_zoom_inv:
  "zoom_inv st \<Longrightarrow> PinchUpdate NaN \<notin> set evs \<Longrightarrow> \<exists>st'. run evs st = Some st' \<and> zoom_inv st'"
proof (induction evs arbitrary: st)
  case Nil
  then show ?case by simp
next
  case (Cons e evs)
  obtain st1 where st1: "handle e st = Some st1"
    using handle_total by blast
  have "zoom_inv st1"
    using Cons.prems st1 handle_zoom_inv [of st e st1] by auto
  then show ?case
    using Cons.IH [of st1] Cons.prems(2) st1 by simp
qed

lemma zoom_inv_initial: "zoom_inv initial_App"
  by (simp add: zoom_inv_def camera_distance_def initial_App_def three_in_range)


lemma started_zoom: "camera_distance started = Some (lit 3)" "initialCameraZRef started = lit 3"
  by (simp_all add: started_def camera_distance_def)


text \<open>
  Without the scale factor NaN the range is kept. In every state that the component
  reaches by events among which no pinch update reports NaN, the camera distance, once
  there is a camera, and the zoom anchor are within 1.5 and 5; scale factors that are
  zero, negative or infinite are included. Pinch start, pinch update with a scale factor
  other than NaN, and pinch end each keep the distance and the anchor within the range.
\<close>

lemma zoom_range_kept_without_NaN:
  "PinchUpdate NaN \<notin> set evs \<Longrightarrow>
     (\<exists>st. run evs initial_App = Some st
          \<and> in_zoom_range (initialCameraZRef st)
          \<and> (case camera_distance st of None \<Rightarrow> True | Some d \<Rightarrow> in_zoom_range d))
   \<and> (onContextCreate gl h st0 = Some st1 \<longrightarrow> camera_distance st1 = Some (lit 3))
   \<and> (zoom_inv st2 \<longrightarrow>
        zoom_inv (pinchStart st2) \<and> zoom_inv (pinchEnd st2)
      \<and> (s \<noteq> NaN \<longrightarrow> zoom_inv (pinchUpdate s st2)))"
proof -
  assume "PinchUpdate NaN \<notin> set evs"
  then have "\<exists>st. run evs initial_App = Some st \<and> zoom_inv st"
    using zoom_inv_initial run_zoom_inv by blast
  then have "\<exists>st. run evs initial_App = Some st
          \<and> in_zoom_range (initialCameraZRef st)
          \<and> (case camera_distance st of None \<Rightarrow> True | Some d \<Rightarrow> in_zoom_range d)"
    by (simp add: zoom_inv_def)
  moreover have "onContextCreate gl h st0 = Some st1 \<longrightarrow> camera_distance st1 = Some (lit 3)"
    using onContextCreate_camera(1) [of gl h st0 st1]
    by (auto simp: camera_distance_def new_camera_distance)
  ultimately show ?thesis
    using pinchStart_zoom_inv pinchEnd_zoom_inv pinchUpdate_zoom_inv by blast
qed

lemma zoom_range_kept_example:
  "PinchUpdate NaN \<notin> set [ContextCreate example_gl 1, PinchStart, PinchUpdate (lit 0.1), PinchEnd]
   \<and> run [ContextCreate example_gl 1, PinchStart, PinchUpdate (lit 0.1), PinchEnd] initial_App
       \<noteq> None
   \<and> Option.bind
       (run [ContextCreate example_gl 1, PinchStart, PinchUpdate (lit 0.1), PinchEnd] initial_App)
       camera_distance = Some (lit 5)
   \<and> in_zoom_range (lit 5)
   \<and> onContextCreate example_gl 1 initial_App = Some started
   \<and> camera_distance started = Some (lit 3)
   \<and> zoom_inv started
   \<and> lit 2 \<noteq> NaN
   \<and> zoom_inv (pinchUpdate (lit 2) started)"
proof -
  let ?evs = "[ContextCreate example_gl 1, PinchStart, PinchUpdate (lit 0.1), PinchEnd]"
  have n: "PinchUpdate NaN \<notin> set ?evs"
    by (simp add: lit_def js_round_def split: option.splits)
  have two: "lit 2 \<noteq> NaN"
    by (simp add: lit_def js_round_def split: option.splits)
  have init: "onContextCreate example_gl 1 initial_App = Some started"
    by (rule onContextCreate_started)
  have z: "zoom_inv started"
    by (simp add: zoom_inv_def started_zoom three_in_range)
  have five: "in_zoom_range (lit 5)"
    by code_simp
  have cam: "cameraRef (pinchStart started) = Some
      \<lparr>position = \<lparr>vec_x = lit 0, vec_y = lit 1, vec_z = lit 3\<rparr>,
              rotation = \<lparr>rot_x = lit 0, rot_y = lit 0, rot_z = lit 0\<rparr>,
              fov = lit 75, aspect = js_div (lit 1080) (lit 1920),
              near = lit 0.1, far = lit 1000\<rparr>"
    and anchor: "initialCameraZRef (pinchStart started) = lit 3"
    by (simp_all add: pinchStart_def started_camera)
  have upd: "camera_distance (pinchUpdate (lit 0.1) (pinchStart started)) = Some (lit 5)"
    by (simp only: camera_distance_pinchUpdate [OF cam] anchor three_by_tenth)
  have "camera_distance (pinchEnd (pinchUpdate (lit 0.1) (pinchStart started))) = Some (lit 5)"
    using upd
    by (cases "cameraRef (pinchUpdate (lit 0.1) (pinchStart started))")
      (simp_all add: pinchEnd_def camera_distance_def)
  then have r: "Option.bind (run ?evs initial_App) camera_distance = Some (lit 5)"
    unfolding run_started by simp
  show ?thesis
    using zoom_range_kept_without_NaN
        [OF n, where gl = example_gl and h = 1 and ?st0.0 = initial_App and ?st1.0 = started
         and ?st2.0 = started and s = "lit 2"]
      n two init z five r started_zoom(1)
    by auto
qed



section \<open>Selection changes\<close>

lemma pan_rest: "js_add (lit 0) (js_mul (js_sub (lit 0) (lit 0)) (lit 0.01)) = lit 0"
  by code_simp

lemma pan_ten: "js_add (lit 0) (js_mul (js_sub (lit 10) (lit 0)) (lit 0.01)) = lit 0.1"
  by code_simp

lemma zero_is_not_a_tenth: "lit 0 \<noteq> lit 0.1"
  by code_simp

lemma panUpdate_attached:
  assumes "objectRef st \<noteq> None"
  shows "rotationRef (panUpdate tx ty st) =
           \<lparr>pos_x = js_add (pos_x (rotationRef st))
                     (js_mul (js_sub ty (pos_y (lastPositionRef st))) (lit 0.01)),
            pos_y = js_add (pos_y (rotationRef st))
                     (js_mul (js_sub tx (pos_x (lastPositionRef st))) (lit 0.01))\<rparr>"
    and "model_rotation (panUpdate tx ty st) = Some (rotationRef (panUpdate tx ty st))"
    and "lastPositionRef (panUpdate tx ty st) = \<lparr>pos_x = tx, pos_y = ty\<rparr>"
    and "objectRef (panUpdate tx ty st) \<noteq> None"
    and "selectedItem (panUpdate tx ty st) = selectedItem st"
  using assms
  by (auto simp: panUpdate_def pan_delta_def model_rotation_def Let_def
      set_rotation_x_def set_rotation_y_def)

lemma panEnd_attached:
  assumes "model_rotation st = Some r"
  shows "rotationRef (panEnd st) = r" and "model_rotation (panEnd st) = Some r"
    and "lastPositionRef (panEnd st) = \<lparr>pos_x = lit 0, pos_y = lit 0\<rparr>"
    and "objectRef (panEnd st) \<noteq> None"
  using assms by (auto simp: panEnd_def model_rotation_def Let_def)

lemma started_pan:
  "objectRef started \<noteq> None"
  "rotationRef started = \<lparr>pos_x = lit 0, pos_y = lit 0\<rparr>"
  "lastPositionRef started = \<lparr>pos_x = lit 0, pos_y = lit 0\<rparr>"
  "selectedItem started = \<lparr>item_id = 1, item_name = ''Modern Chair'', item_type = Chair\<rparr>"
  by (simp_all add: started_def)

lemma turned_a_tenth:
  "rotationRef (panUpdate (lit 10) (lit 0) started) = \<lparr>pos_x = lit 0, pos_y = lit 0.1\<rparr>"
  "model_rotation (panUpdate (lit 10) (lit 0) started) = Some \<lparr>pos_x = lit 0, pos_y = lit 0.1\<rparr>"
  using panUpdate_attached(1,2) [OF started_pan(1), of "lit 10" "lit 0"]
  by (simp_all add: started_pan pan_rest pan_ten)

lemma updateFurnitureModel_rotation:
  assumes "updateFurnitureModel st = Some st'" and "sceneRef st = Some scene"
  shows "model_rotation st' = Some \<lparr>pos_x = lit 0, pos_y = lit 0\<rparr>"
  using updateFurnitureModel_model [OF assms] by (auto simp: model_rotation_def)

text \<open>
  C3, as the code has it. A selection change, of the furniture kind or of the colour,
  leaves the orientation state, the last pan sample, the zoom anchor and the camera, and so
  the camera distance, unchanged. When there is a scene, the newly attached model is the
  one \<open>objectRef\<close> points to and its rotation is zero: the rebuild resets it. The model
  takes the accumulated orientation again with the next pan update, which sets its
  rotation to the orientation state.
\<close>

theorem selection_change_resets_model_rotation:
  "r = setSelectedItem item st \<and> item \<noteq> selectedItem st
   \<or> r = setSelectedColor color st \<and> color \<noteq> selectedColor st \<Longrightarrow>
     \<exists>st'. r = Some st'
       \<and> rotationRef st' = rotationRef st
       \<and> lastPositionRef st' = lastPositionRef st
       \<and> initialCameraZRef st' = initialCameraZRef st
       \<and> cameraRef st' = cameraRef st
       \<and> camera_distance st' = camera_distance st
       \<and> (\<forall>scene. sceneRef st = Some scene \<longrightarrow>
            (\<exists>i ob. objectRef st' = Some (i, ob)
               \<and> sceneRef st' = Some (remove_existing st scene @ [Model i])
               \<and> rotation ob = \<lparr>rot_x = lit 0, rot_y = lit 0, rot_z = lit 0\<rparr>)
          \<and> model_rotation st' = Some \<lparr>pos_x = lit 0, pos_y = lit 0\<rparr>
          \<and> model_rotation (panUpdate tx ty st') = Some (rotationRef (panUpdate tx ty st')))"
proof -
  assume "r = setSelectedItem item st \<and> item \<noteq> selectedItem st
   \<or> r = setSelectedColor color st \<and> color \<noteq> selectedColor st"
  then obtain st0 where r: "r = updateFurnitureModel st0"
    and same: "rotationRef st0 = rotationRef st" "lastPositionRef st0 = lastPositionRef st"
      "initialCameraZRef st0 = initialCameraZRef st" "cameraRef st0 = cameraRef st"
      "sceneRef st0 = sceneRef st" "objectRef st0 = objectRef st"
      "objects_created st0 = objects_created st"
    by (auto simp: setSelectedItem_def setSelectedColor_def)
  obtain st' where st': "updateFurnitureModel st0 = Some st'"
    using updateFurnitureModel_total by blast
  have cam: "camera_distance st' = camera_distance st"
    using updateFurnitureModel_frame(4) [OF st'] same(4) by (simp add: camera_distance_def)
  have model: "(\<exists>i ob. objectRef st' = Some (i, ob)
               \<and> sceneRef st' = Some (remove_existing st scene @ [Model i])
               \<and> rotation ob = \<lparr>rot_x = lit 0, rot_y = lit 0, rot_z = lit 0\<rparr>)
          \<and> model_rotation st' = Some \<lparr>pos_x = lit 0, pos_y = lit 0\<rparr>
          \<and> model_rotation (panUpdate tx ty st') = Some (rotationRef (panUpdate tx ty st'))"
    if scene: "sceneRef st = Some scene" for scene
  proof -
    have scene0: "sceneRef st0 = Some scene"
      using scene same(5) by simp
    have rem: "remove_existing st0 scene = remove_existing st scene"
      using same(6) by (simp add: remove_existing_def)
    obtain ob where ob: "objectRef st' = Some (objects_created st0, ob)"
      "rotation ob = \<lparr>rot_x = lit 0, rot_y = lit 0, rot_z = lit 0\<rparr>"
      "sceneRef st' = Some (remove_existing st0 scene @ [Model (objects_created st0)])"
      using updateFurnitureModel_model [OF st' scene0] by blast
    have "objectRef st' \<noteq> None"
      using ob(1) by simp
    then have "model_rotation (panUpdate tx ty st') = Some (rotationRef (panUpdate tx ty st'))"
      by (rule panUpdate_attached(2))
    then show ?thesis
      using ob rem updateFurnitureModel_rotation [OF st' scene0] by auto
  qed
  show ?thesis
    using r st' updateFurnitureModel_frame(1,2,3,4) [OF st'] same cam model by auto
qed

theorem selection_change_resets_model_rotation_witness:
  "\<lparr>item_id = 2, item_name = ''Coffee Table'', item_type = Table\<rparr> \<noteq> selectedItem started
   \<and> setSelectedItem \<lparr>item_id = 2, item_name = ''Coffee Table'', item_type = Table\<rparr> started
       \<noteq> None
   \<and> map_option rotationRef
       (setSelectedItem \<lparr>item_id = 2, item_name = ''Coffee Table'', item_type = Table\<rparr> started)
       = Some (rotationRef started)
   \<and> map_option camera_distance
       (setSelectedItem \<lparr>item_id = 2, item_name = ''Coffee Table'', item_type = Table\<rparr> started)
       = Some (Some (lit 3))
   \<and> sceneRef started \<noteq> None
   \<and> Option.bind
       (setSelectedItem \<lparr>item_id = 2, item_name = ''Coffee Table'', item_type = Table\<rparr> started)
       model_rotation = Some \<lparr>pos_x = lit 0, pos_y = lit 0\<rparr>"
proof -
  let ?table = "\<lparr>item_id = 2, item_name = ''Coffee Table'', item_type = Table\<rparr>"
  have d: "?table \<noteq> selectedItem started"
    by (simp add: started_def)
  obtain scene where scene: "sceneRef started = Some scene"
    by (simp add: started_def)
  obtain st' where "setSelectedItem ?table started = Some st'"
    and "rotationRef st' = rotationRef started"
    and "camera_distance st' = camera_distance started"
    and "model_rotation st' = Some \<lparr>pos_x = lit 0, pos_y = lit 0\<rparr>"
    using selection_change_resets_model_rotation
      [where r = "setSelectedItem ?table started" and item = ?table and st = started] d scene
    by blast
  then show ?thesis
    using d scene by (simp add: started_zoom)
qed

theorem selection_change_counterexample:
  "Option.bind
     (run [ContextCreate example_gl 1, PanUpdate (lit 10) (lit 0),
           SelectItem \<lparr>item_id = 2, item_name = ''Coffee Table'', item_type = Table\<rparr>]
        initial_App)
     model_rotation = Some \<lparr>pos_x = lit 0, pos_y = lit 0\<rparr>
   \<and> map_option rotationRef
       (run [ContextCreate example_gl 1, PanUpdate (lit 10) (lit 0),
             SelectItem \<lparr>item_id = 2, item_name = ''Coffee Table'', item_type = Table\<rparr>]
          initial_App)
       = Some \<lparr>pos_x = lit 0, pos_y = lit 0.1\<rparr>
   \<and> lit 0 \<noteq> lit 0.1"
proof -
  let ?table = "\<lparr>item_id = 2, item_name = ''Coffee Table'', item_type = Table\<rparr>"
  let ?turned = "panUpdate (lit 10) (lit 0) started"
  have sel: "setSelectedItem ?table ?turned =
               updateFurnitureModel (?turned\<lparr>selectedItem := ?table\<rparr>)"
    by (simp add: setSelectedItem_def panUpdate_attached(5) [OF started_pan(1)] started_pan(4))
  obtain st' where st': "updateFurnitureModel (?turned\<lparr>selectedItem := ?table\<rparr>) = Some st'"
    using updateFurnitureModel_total by blast
  obtain scene where "sceneRef (?turned\<lparr>selectedItem := ?table\<rparr>) = Some scene"
    by (simp add: pan_frame started_def)
  then have "model_rotation st' = Some \<lparr>pos_x = lit 0, pos_y = lit 0\<rparr>"
    using st' updateFurnitureModel_rotation by blast
  moreover have "rotationRef st' = \<lparr>pos_x = lit 0, pos_y = lit 0.1\<rparr>"
    using updateFurnitureModel_frame(1) [OF st'] turned_a_tenth(1) by simp
  ultimately show ?thesis
    unfolding run_started using sel st' zero_is_not_a_tenth by simp
qed

section \<open>Accumulation of pan deltas\<close>

lemma add_zero_twice: "is_double a \<Longrightarrow> js_add (js_add a (lit 0)) (lit 0) = js_add a (lit 0)"
  unfolding lit_0 by (cases a) (auto simp: js_round_def sval_def)

lemma no_vertical_drag: "js_mul (js_sub (lit 0) (lit 0)) (lit 0.01) = lit 0"
  by code_simp

lemma three_then_two_from_zero:
  "js_add (js_add (lit 0) (js_mul (js_sub (lit 3) (lit 0)) (lit 0.01)))
     (js_mul (js_sub (lit 5) (lit 3)) (lit 0.01)) = lit 0.05"
  by code_simp

lemma five_from_zero: "js_add (lit 0) (js_mul (js_sub (lit 5) (lit 0)) (lit 0.01)) = lit 0.05"
  by code_simp

lemma three_from_a_tenth:
  "js_add (lit 0.1) (js_mul (js_sub (lit 3) (lit 0)) (lit 0.01)) = lit 0.13"
  by code_simp

lemma two_more_from_a_tenth:
  "js_add (lit 0.13) (js_mul (js_sub (lit 5) (lit 3)) (lit 0.01)) = lit 0.15"
  by code_simp

lemma five_from_a_tenth:
  "js_add (lit 0.1) (js_mul (js_sub (lit 5) (lit 0)) (lit 0.01)) = lit 0.15000000000000002"
  by code_simp

lemma last_bit_differs: "lit 0.15 \<noteq> lit 0.15000000000000002"
  by code_simp

subsection \<open>The rounding error of an addition\<close>

text \<open>
  An addition of finite numbers whose exact sum is below the overflow threshold returns a
  finite number within the relative error \<open>2^-53\<close> of the exact sum, up to half the
  smallest subnormal. An addend of at most 1/16 leaves a number of magnitude \<open>2^60\<close> or more
  as it is.
\<close>

lemma round_half_even_near:
  assumes "\<bar>x - of_int k\<bar> < 1 / 2"
  shows "round_half_even x = k"
proof -
  have "of_int (k - 1) \<le> x" "x < of_int (k + 1)"
    using assms by (simp_all add: abs_if split: if_splits)
  then have "k - 1 \<le> \<lfloor>x\<rfloor>" "\<lfloor>x\<rfloor> < k + 1"
    by (simp_all only: le_floor_iff floor_less_iff)
  then have fl: "\<lfloor>x\<rfloor> = k - 1 \<or> \<lfloor>x\<rfloor> = k"
    by linarith
  then show ?thesis
  proof
    assume f: "\<lfloor>x\<rfloor> = k - 1"
    have "x < of_int k"
      using f by (metis floor_less_iff less_add_one diff_add_cancel)
    then have "1 / 2 < x - of_int (k - 1)"
      using assms by (simp add: abs_if split: if_splits)
    then show ?thesis
      by (simp add: round_half_even_def Let_def f)
  next
    assume f: "\<lfloor>x\<rfloor> = k"
    have "of_int k \<le> x"
      using f by (metis of_int_floor_le)
    then have "x - of_int k < 1 / 2"
      using assms by (simp add: abs_if split: if_splits)
    then show ?thesis
      by (simp add: round_half_even_def Let_def f)
  qed
qed

lemma tiny: "pow2 (- 1075) \<le> 1 / 2 ^ 60"
proof -
  have "pow2 (- 1075) \<le> pow2 (- 60)"
    by (rule pow2_mono) simp
  then show ?thesis
    by (simp add: pow2_def)
qed

lemma below_overflow: "q < 2 ^ 62 \<Longrightarrow> q < pow2 1023"
proof -
  assume "q < 2 ^ 62"
  moreover have "pow2 62 \<le> pow2 1023"
    by (rule pow2_mono) simp
  moreover have "pow2 62 = 2 ^ 62"
    by (simp add: pow2_def)
  ultimately show ?thesis
    by simp
qed

lemma round_mag_finite:
  assumes "0 < q" and "q < pow2 1023"
  shows "\<exists>r. round_mag q = Some r"
proof -
  have "pow2 (ilog2 q) < pow2 1023"
    using ilog2_bounds(1) [OF assms(1)] assms(2) by simp
  then have "ilog2 q < 1023"
    by (rule pow2_less_cancel)
  then show ?thesis
    using assms(1) by (auto simp: round_mag_def Let_def)
qed

lemma round_mag_relative_error:
  assumes "0 < q" and "round_mag q = Some r"
  shows "\<bar>r - q\<bar> \<le> q / 2 ^ 53 + pow2 (- 1075)"
proof (cases "- 1022 \<le> ilog2 q")
  case True
  then have "max (ilog2 q) (- 1022) = ilog2 q"
    by simp
  then have "pow2 (max (ilog2 q) (- 1022) - 52) / 2 = pow2 (ilog2 q) / 2 ^ 53"
    by (simp add: pow2_powi power_int_diff)
  also have "\<dots> \<le> q / 2 ^ 53"
    using ilog2_bounds(1) [OF assms(1)] by (simp add: divide_right_mono)
  finally show ?thesis
    using round_mag_error [OF assms] pow2_pos [of "- 1075"] by linarith
next
  case False
  then have "max (ilog2 q) (- 1022) - 52 = - 1074"
    by simp
  moreover have "pow2 (- 1075) = pow2 (- 1074) / 2"
    using pow2_Suc [of "- 1075"] by simp
  ultimately have "pow2 (max (ilog2 q) (- 1022) - 52) / 2 = pow2 (- 1075)"
    by simp
  then show ?thesis
    using round_mag_error [OF assms] assms(1) by simp
qed

lemma js_add_error:
  assumes "\<bar>sval s m + sval t n\<bar> < pow2 1023"
  shows "is_finite (js_add (Fin s m) (Fin t n))"
    and "\<bar>num_val (js_add (Fin s m) (Fin t n)) - (sval s m + sval t n)\<bar>
           \<le> \<bar>sval s m + sval t n\<bar> / 2 ^ 53 + pow2 (- 1075)"
proof -
  define v where "v = sval s m + sval t n"
  have "is_finite (js_add (Fin s m) (Fin t n))
      \<and> \<bar>num_val (js_add (Fin s m) (Fin t n)) - v\<bar> \<le> \<bar>v\<bar> / 2 ^ 53 + pow2 (- 1075)"
  proof (cases "v = 0")
    case True
    then have "js_add (Fin s m) (Fin t n) = Fin (s \<and> t) 0"
      unfolding v_def by simp
    then show ?thesis
      using True pow2_pos [of "- 1075"] by (simp add: sval_def)
  next
    case False
    then have pos: "0 < \<bar>v\<bar>"
      by simp
    obtain r where r: "round_mag \<bar>v\<bar> = Some r"
      using round_mag_finite [OF pos] assms by (auto simp: v_def)
    have sum: "js_add (Fin s m) (Fin t n) = Fin (v < 0) r"
      using False r by (simp add: v_def [symmetric] js_round_def)
    have "\<bar>sval (v < 0) r - v\<bar> = \<bar>r - \<bar>v\<bar>\<bar>"
      by (simp add: sval_def abs_if)
    then show ?thesis
      using round_mag_relative_error [OF pos r] unfolding sum by simp
  qed
  then show "is_finite (js_add (Fin s m) (Fin t n))"
    and "\<bar>num_val (js_add (Fin s m) (Fin t n)) - (sval s m + sval t n)\<bar>
           \<le> \<bar>sval s m + sval t n\<bar> / 2 ^ 53 + pow2 (- 1075)"
    by (simp_all add: v_def)
qed


lemma round_mag_eq:
  assumes "0 < q" and "ilog2 q = e" and "- 1022 \<le> e" and "e \<le> 1023"
    and "round_half_even (q / pow2 (e - 52)) = k" and "e < 1023 \<or> k \<noteq> 2 ^ 53"
  shows "round_mag q = Some (of_int k * pow2 (e - 52))"
  using assms by (auto simp: round_mag_def Let_def)

text \<open>A large value absorbs a small addend: the sum rounds back to the large value.\<close>

lemma round_mag_absorb:
  assumes m: "round_mag m = Some m" and large: "pow2 60 \<le> m" and small: "\<bar>d\<bar> \<le> 1 / 16"
  shows "round_mag (m + d) = Some m"
proof -
  have m_pos: "0 < m"
    using large pow2_pos [of 60] by simp
  define e where "e = ilog2 m"
  define ulp where "ulp = pow2 (e - 52)"
  define k where "k = round_half_even (m / ulp)"
  have e_lo: "pow2 e \<le> m" and e_hi: "m < pow2 (e + 1)"
    unfolding e_def using ilog2_bounds [OF m_pos] by simp_all
  have "pow2 60 < pow2 (e + 1)"
    using large e_hi by simp
  then have e60: "60 \<le> e"
    using pow2_less_cancel [of 60 "e + 1"] by simp
  then have emax: "max e (- 1022) = e"
    by simp
  have mk: "m = of_int k * ulp" and e_le: "e \<le> 1023"
    using m m_pos emax
    by (auto simp: round_mag_def Let_def e_def [symmetric] ulp_def k_def split: if_splits)
  have "pow2 8 \<le> ulp"
    unfolding ulp_def using e60 by (intro pow2_mono) simp
  then have ulp: "256 \<le> ulp"
    by (simp add: pow2_def)
  have k_lo: "2 ^ 52 \<le> k"
  proof -
    have "of_int (2 ^ 52) * ulp \<le> of_int k * ulp"
      using e_lo unfolding pow2_split(1) [of e] ulp_def [symmetric] mk by simp
    then have "(of_int (2 ^ 52) :: rat) \<le> of_int k"
      using ulp by (auto simp: mult_le_cancel_right)
    then show ?thesis
      by (simp only: of_int_le_iff)
  qed
  have k_hi: "k < 2 ^ 53"
  proof -
    have "of_int k * ulp < of_int (2 ^ 53) * ulp"
      using e_hi unfolding pow2_split(2) [of e] ulp_def [symmetric] mk by simp
    then have "(of_int k :: rat) < of_int (2 ^ 53)"
      using ulp by (auto simp: mult_less_cancel_right)
    then show ?thesis
      by (simp only: of_int_less_iff)
  qed
  have "1 \<le> m"
    using large pow2_mono [of 0 60] by (simp add: pow2_def)
  then have q_pos: "0 < m + d"
    using small by (simp add: abs_if split: if_splits)
  show ?thesis
  proof (cases "pow2 e \<le> m + d")
    case True
    have "of_int (k + 1) * ulp \<le> of_int (2 ^ 53) * ulp"
      using k_hi ulp by (intro mult_right_mono) simp_all
    then have "m + ulp \<le> pow2 (e + 1)"
      unfolding pow2_split(2) [of e] ulp_def [symmetric] mk by (simp add: algebra_simps)
    then have "m + d < pow2 (e + 1)"
      using small ulp by (simp add: abs_if split: if_splits)
    then have il: "ilog2 (m + d) = e"
      using True by (intro ilog2_unique)
    have "(m + d) / ulp - of_int k = d / ulp"
      using ulp by (simp add: mk field_simps)
    moreover have "\<bar>d / ulp\<bar> < 1 / 2"
      using small ulp by (simp add: abs_if field_simps split: if_splits)
    ultimately have "round_half_even ((m + d) / ulp) = k"
      by (intro round_half_even_near) simp
    then have "round_mag (m + d) = Some (of_int k * pow2 (e - 52))"
      using q_pos il e60 e_le k_hi unfolding ulp_def by (intro round_mag_eq) simp_all
    then show ?thesis
      unfolding mk ulp_def .
  next
    case False
    define ulp' where "ulp' = pow2 (e - 53)"
    have "pow2 (e - 53 + 1) = 2 * pow2 (e - 53)"
      by (rule pow2_Suc)
    then have half: "ulp = 2 * ulp'"
      by (simp add: ulp_def ulp'_def)
    have "pow2 (e - 1 + 1) = 2 * pow2 (e - 1)"
      by (rule pow2_Suc)
    then have pe: "pow2 e = 2 * pow2 (e - 1)"
      by simp
    have "1 \<le> pow2 (e - 1)"
      using pow2_mono [of 0 "e - 1"] e60 by (simp add: pow2_def)
    then have "pow2 (e - 1) \<le> m + d"
      using e_lo pe small by (simp add: abs_if split: if_splits)
    moreover have "m + d < pow2 (e - 1 + 1)"
      using False by simp
    ultimately have il: "ilog2 (m + d) = e - 1"
      by (intro ilog2_unique)
    have emax': "max (e - 1) (- 1022) = e - 1"
      using e60 by simp
    have "(m + d) / ulp' - of_int (2 * k) = d / ulp'"
      using ulp half by (simp add: mk field_simps)
    moreover have "\<bar>d / ulp'\<bar> < 1 / 2"
      using small ulp half by (simp add: abs_if field_simps split: if_splits)
    ultimately have "round_half_even ((m + d) / ulp') = 2 * k"
      by (intro round_half_even_near) simp
    then have "round_mag (m + d) = Some (of_int (2 * k) * pow2 (e - 1 - 52))"
      using q_pos il e60 e_le unfolding ulp'_def by (intro round_mag_eq) simp_all
    moreover have "of_int (2 * k) * pow2 (e - 1 - 52) = m"
      by (simp add: mk half ulp'_def)
    ultimately show ?thesis
      by simp
  qed
qed

lemma js_add_absorb:
  assumes "is_double (Fin s m)" and "pow2 60 \<le> m" and "0 \<le> n" and "n \<le> 1 / 16"
  shows "js_add (Fin s m) (Fin t n) = Fin s m"
proof -
  define d where "d = (if s = t then n else - n)"
  have m: "round_mag m = Some m" and m0: "0 \<le> m"
    using assms(1) by simp_all
  have big: "1 \<le> m"
    using assms(2) pow2_mono [of 0 60] by (simp add: pow2_def)
  have d: "\<bar>d\<bar> \<le> 1 / 16"
    using assms(3,4) by (simp add: d_def)
  have v: "sval s m + sval t n = sval s (m + d)"
    by (simp add: sval_def d_def)
  have pos: "0 < m + d"
    using big d by (simp add: abs_if split: if_splits)
  then have "sval s (m + d) \<noteq> 0" "(sval s (m + d) < 0) = s" "\<bar>sval s (m + d)\<bar> = m + d"
    by (simp_all add: sval_def)
  then show ?thesis
    using round_mag_absorb [OF m assms(2) d] by (simp add: v js_round_def)
qed


text \<open>The three sample deltas times the sensitivity 0.01, as binary64 values.\<close>

lemma sample_products:
  "js_mul (js_sub (lit 3) (lit 0)) (lit 0.01) = Fin False (1080863910568919 / 36028797018963968)"
  "js_mul (js_sub (lit 5) (lit 3)) (lit 0.01) = Fin False (5764607523034235 / 288230376151711744)"
  "js_mul (js_sub (lit 5) (lit 0)) (lit 0.01) = Fin False (3602879701896397 / 72057594037927936)"
  by code_simp+

lemma two_steps_near_one:
  fixes y0 :: jsnum
  defines "y2 \<equiv> js_add (js_add y0 (Fin False (1080863910568919 / 36028797018963968)))
                    (Fin False (5764607523034235 / 288230376151711744))"
    and "y1 \<equiv> js_add y0 (Fin False (3602879701896397 / 72057594037927936))"
  assumes y0: "is_double y0"
  shows "y2 = y1 \<or>
         is_finite y2 \<and> is_finite y1 \<and> \<bar>num_val y2 - num_val y1\<bar> \<le> (\<bar>num_val y0\<bar> + 1) / 2 ^ 51"
proof (cases y0)
  case NaN
  then show ?thesis
    by (simp add: y2_def y1_def)
next
  case (Inf s)
  then show ?thesis
    by (simp add: y2_def y1_def)
next
  case (Fin s m)
  have m0: "0 \<le> m"
    using y0 Fin by simp
  show ?thesis
  proof (cases "m \<le> 2 ^ 60")
    case False
    then have large: "pow2 60 \<le> m"
      by (simp add: pow2_def)
    have d: "is_double (Fin s m)"
      using y0 Fin by simp
    have "js_add (Fin s m) (Fin False (1080863910568919 / 36028797018963968)) = Fin s m"
      "js_add (Fin s m) (Fin False (5764607523034235 / 288230376151711744)) = Fin s m"
      "js_add (Fin s m) (Fin False (3602879701896397 / 72057594037927936)) = Fin s m"
      by (rule js_add_absorb [OF d large]; simp)+
    then show ?thesis
      by (simp add: y2_def y1_def Fin)
  next
    case True
    define v where "v = sval s m"
    define x1 where "x1 = js_add (Fin s m) (Fin False (1080863910568919 / 36028797018963968))"
    define e1 where "e1 = v + 1080863910568919 / 36028797018963968"
    define e3 where "e3 = v + 3602879701896397 / 72057594037927936"
    have v: "\<bar>v\<bar> = m"
      using m0 by (simp add: v_def sval_def)
    have p: "(2::rat) ^ 51 = 2251799813685248" "(2::rat) ^ 53 = 9007199254740992"
      "(2::rat) ^ 60 = 1152921504606846976" "(2::rat) ^ 62 = 4611686018427387904"
      by simp_all
    have s1: "sval s m + sval False (1080863910568919 / 36028797018963968) = e1"
      and s3: "sval s m + sval False (3602879701896397 / 72057594037927936) = e3"
      by (simp_all add: v_def e1_def e3_def sval_def)
    have "\<bar>e1\<bar> < 2 ^ 62"
      using v True e1_def unfolding p by linarith
    then have "\<bar>sval s m + sval False (1080863910568919 / 36028797018963968)\<bar> < pow2 1023"
      unfolding s1 by (rule below_overflow)
    from js_add_error [OF this]
    have f1: "is_finite x1"
      and r1: "\<bar>num_val x1 - e1\<bar> \<le> \<bar>e1\<bar> / 2 ^ 53 + pow2 (- 1075)"
      unfolding s1 x1_def by simp_all
    obtain u w where x1: "x1 = Fin u w"
      using f1 by (cases x1) simp_all
    define c where "c = sval u w"
    define e2 where "e2 = c + 5764607523034235 / 288230376151711744"
    have c: "num_val x1 = c"
      by (simp add: x1 c_def)
    have s2: "sval u w + sval False (5764607523034235 / 288230376151711744) = e2"
      by (simp add: c_def e2_def sval_def)
    have "\<bar>e2\<bar> < 2 ^ 62"
      using r1 v True tiny e1_def e2_def unfolding c p by linarith
    then have "\<bar>sval u w + sval False (5764607523034235 / 288230376151711744)\<bar> < pow2 1023"
      unfolding s2 by (rule below_overflow)
    from js_add_error [OF this]
    have f2: "is_finite y2"
      and r2: "\<bar>num_val y2 - e2\<bar> \<le> \<bar>e2\<bar> / 2 ^ 53 + pow2 (- 1075)"
      unfolding s2 y2_def Fin x1_def [symmetric] x1 by simp_all
    have "\<bar>e3\<bar> < 2 ^ 62"
      using v True e3_def unfolding p by linarith
    then have "\<bar>sval s m + sval False (3602879701896397 / 72057594037927936)\<bar> < pow2 1023"
      unfolding s3 by (rule below_overflow)
    from js_add_error [OF this]
    have f3: "is_finite y1"
      and r3: "\<bar>num_val y1 - e3\<bar> \<le> \<bar>e3\<bar> / 2 ^ 53 + pow2 (- 1075)"
      unfolding s3 y1_def Fin by simp_all
    have "\<bar>num_val y2 - num_val y1\<bar> \<le> \<bar>v\<bar> / 2251799813685248 + 1 / 2251799813685248"
      using e1_def e2_def e3_def r1 r2 r3 v True tiny unfolding c p by linarith
    then have "\<bar>num_val y2 - num_val y1\<bar> \<le> (\<bar>v\<bar> + 1) / 2 ^ 51"
      by (simp add: add_divide_distrib)
    then show ?thesis
      using f2 f3 by (simp add: Fin v_def)
  qed
qed

subsection \<open>Two updates and one\<close>

text \<open>The orientation with the y angle 0.1, reached by a pan of (10, 0) that has ended.\<close>

lemma released_at_a_tenth:
  "rotationRef (panEnd (panUpdate (lit 10) (lit 0) started)) = \<lparr>pos_x = lit 0, pos_y = lit 0.1\<rparr>"
  "lastPositionRef (panEnd (panUpdate (lit 10) (lit 0) started)) = \<lparr>pos_x = lit 0, pos_y = lit 0\<rparr>"
  "objectRef (panEnd (panUpdate (lit 10) (lit 0) started)) \<noteq> None"
  using panEnd_attached(1,3,4) [OF turned_a_tenth(2)] by simp_all

lemma one_update_from_a_tenth:
  "model_rotation (panUpdate (lit 5) (lit 0) (panEnd (panUpdate (lit 10) (lit 0) started))) =
     Some \<lparr>pos_x = lit 0, pos_y = lit 0.15000000000000002\<rparr>"
  by (simp add: panUpdate_attached(1,2) [OF released_at_a_tenth(3)] released_at_a_tenth(1,2)
      pan_rest five_from_a_tenth)

lemma two_updates_from_a_tenth:
  "model_rotation
     (panUpdate (lit 5) (lit 0)
        (panUpdate (lit 3) (lit 0) (panEnd (panUpdate (lit 10) (lit 0) started)))) =
     Some \<lparr>pos_x = lit 0, pos_y = lit 0.15\<rparr>"
proof -
  let ?st = "panEnd (panUpdate (lit 10) (lit 0) started)"
  let ?st1 = "panUpdate (lit 3) (lit 0) ?st"
  have attached1: "objectRef ?st1 \<noteq> None"
    using released_at_a_tenth(3) by (rule panUpdate_attached(4))
  have first: "rotationRef ?st1 = \<lparr>pos_x = lit 0, pos_y = lit 0.13\<rparr>"
    and last1: "lastPositionRef ?st1 = \<lparr>pos_x = lit 3, pos_y = lit 0\<rparr>"
    by (simp_all add: panUpdate_attached(1,3) [OF released_at_a_tenth(3)]
        released_at_a_tenth(1,2) pan_rest three_from_a_tenth)
  show ?thesis
    by (simp add: panUpdate_attached(1,2) [OF attached1] first last1 pan_rest
        two_more_from_a_tenth)
qed

lemma doubles_0_a_tenth: "is_double (lit 0)" "is_double (lit 0.1)"
  by code_simp+

text \<open>
  C9, as the code has it. Start with a model attached, the last sample (0, 0) and any
  orientation. The pan updates with the raw samples (3, 0) and then (5, 0), whose deltas
  are (3, 0) and (2, 0), and the single pan update with the raw sample (5, 0) leave the
  model with the same x rotation. Their y rotations are the same number, or else both are
  finite and differ by at most \<open>(|y| + 1) / 2^51\<close>, where \<open>y\<close> is the y angle at the start:
  every addition rounds to binary64. From the y angle 0, as the component starts, the two
  y rotations are the same, 0.05.
\<close>

theorem pan_deltas_add_up_to_rounding:
  "objectRef st \<noteq> None \<Longrightarrow>
   lastPositionRef st = \<lparr>pos_x = lit 0, pos_y = lit 0\<rparr> \<Longrightarrow>
   is_double (pos_x (rotationRef st)) \<Longrightarrow>
   is_double (pos_y (rotationRef st)) \<Longrightarrow>
     \<exists>y2 y1.
       model_rotation (panUpdate (lit 5) (lit 0) (panUpdate (lit 3) (lit 0) st)) =
         Some \<lparr>pos_x = js_add (pos_x (rotationRef st)) (lit 0), pos_y = y2\<rparr>
     \<and> model_rotation (panUpdate (lit 5) (lit 0) st) =
         Some \<lparr>pos_x = js_add (pos_x (rotationRef st)) (lit 0), pos_y = y1\<rparr>
     \<and> (y2 = y1
        \<or> is_finite y2 \<and> is_finite y1
          \<and> \<bar>num_val y2 - num_val y1\<bar> \<le> (\<bar>num_val (pos_y (rotationRef st))\<bar> + 1) / 2 ^ 51)
     \<and> (pos_y (rotationRef st) = lit 0 \<longrightarrow> y2 = lit 0.05 \<and> y1 = lit 0.05)"
proof -
  assume attached: "objectRef st \<noteq> None"
    and last: "lastPositionRef st = \<lparr>pos_x = lit 0, pos_y = lit 0\<rparr>"
    and x: "is_double (pos_x (rotationRef st))"
    and y: "is_double (pos_y (rotationRef st))"
  let ?st1 = "panUpdate (lit 3) (lit 0) st"
  let ?x0 = "pos_x (rotationRef st)"
  let ?y0 = "pos_y (rotationRef st)"
  let ?y1 = "js_add ?y0 (Fin False (3602879701896397 / 72057594037927936))"
  let ?y2 = "js_add (js_add ?y0 (Fin False (1080863910568919 / 36028797018963968)))
               (Fin False (5764607523034235 / 288230376151711744))"
  have attached1: "objectRef ?st1 \<noteq> None"
    using attached by (rule panUpdate_attached(4))
  have one: "rotationRef (panUpdate (lit 5) (lit 0) st) =
               \<lparr>pos_x = js_add ?x0 (lit 0), pos_y = ?y1\<rparr>"
    by (simp add: panUpdate_attached(1) [OF attached] last no_vertical_drag sample_products)
  have first: "rotationRef ?st1 =
               \<lparr>pos_x = js_add ?x0 (lit 0),
                pos_y = js_add ?y0 (Fin False (1080863910568919 / 36028797018963968))\<rparr>"
    and last1: "lastPositionRef ?st1 = \<lparr>pos_x = lit 3, pos_y = lit 0\<rparr>"
    by (simp_all add: panUpdate_attached(1,3) [OF attached] last no_vertical_drag
        sample_products)
  have two: "rotationRef (panUpdate (lit 5) (lit 0) ?st1) =
               \<lparr>pos_x = js_add ?x0 (lit 0), pos_y = ?y2\<rparr>"
    by (simp add: panUpdate_attached(1) [OF attached1] first last1 no_vertical_drag
        sample_products add_zero_twice [OF x])
  have near: "?y2 = ?y1
        \<or> is_finite ?y2 \<and> is_finite ?y1
          \<and> \<bar>num_val ?y2 - num_val ?y1\<bar> \<le> (\<bar>num_val ?y0\<bar> + 1) / 2 ^ 51"
    using y by (rule two_steps_near_one)
  have zero: "?y2 = lit 0.05 \<and> ?y1 = lit 0.05" if "?y0 = lit 0"
    using three_then_two_from_zero five_from_zero unfolding sample_products that by simp
  have "model_rotation (panUpdate (lit 5) (lit 0) ?st1) =
          Some \<lparr>pos_x = js_add ?x0 (lit 0), pos_y = ?y2\<rparr>"
    and "model_rotation (panUpdate (lit 5) (lit 0) st) =
          Some \<lparr>pos_x = js_add ?x0 (lit 0), pos_y = ?y1\<rparr>"
    by (simp_all only: panUpdate_attached(2) [OF attached] panUpdate_attached(2) [OF attached1]
        one two)
  then show ?thesis
    using near zero by blast
qed

theorem pan_deltas_add_up_to_rounding_witness:
  "objectRef (panEnd (panUpdate (lit 10) (lit 0) started)) \<noteq> None
   \<and> lastPositionRef (panEnd (panUpdate (lit 10) (lit 0) started)) =
       \<lparr>pos_x = lit 0, pos_y = lit 0\<rparr>
   \<and> rotationRef (panEnd (panUpdate (lit 10) (lit 0) started)) =
       \<lparr>pos_x = lit 0, pos_y = lit 0.1\<rparr>
   \<and> is_double (lit 0) \<and> is_double (lit 0.1)
   \<and> model_rotation
       (panUpdate (lit 5) (lit 0)
          (panUpdate (lit 3) (lit 0) (panEnd (panUpdate (lit 10) (lit 0) started)))) =
       Some \<lparr>pos_x = lit 0, pos_y = lit 0.15\<rparr>
   \<and> model_rotation (panUpdate (lit 5) (lit 0) (panEnd (panUpdate (lit 10) (lit 0) started))) =
       Some \<lparr>pos_x = lit 0, pos_y = lit 0.15000000000000002\<rparr>
   \<and> is_finite (lit 0.15) \<and> is_finite (lit 0.15000000000000002)
   \<and> \<bar>num_val (lit 0.15) - num_val (lit 0.15000000000000002)\<bar>
       \<le> (\<bar>num_val (lit 0.1)\<bar> + 1) / 2 ^ 51"
proof -
  let ?st = "panEnd (panUpdate (lit 10) (lit 0) started)"
  have x: "is_double (pos_x (rotationRef ?st))" and y: "is_double (pos_y (rotationRef ?st))"
    by (simp_all add: released_at_a_tenth(1) doubles_0_a_tenth)
  obtain y2 y1 where
    two: "model_rotation (panUpdate (lit 5) (lit 0) (panUpdate (lit 3) (lit 0) ?st)) =
         Some \<lparr>pos_x = js_add (pos_x (rotationRef ?st)) (lit 0), pos_y = y2\<rparr>"
    and one: "model_rotation (panUpdate (lit 5) (lit 0) ?st) =
         Some \<lparr>pos_x = js_add (pos_x (rotationRef ?st)) (lit 0), pos_y = y1\<rparr>"
    and near: "y2 = y1
        \<or> is_finite y2 \<and> is_finite y1
          \<and> \<bar>num_val y2 - num_val y1\<bar> \<le> (\<bar>num_val (pos_y (rotationRef ?st))\<bar> + 1) / 2 ^ 51"
    using pan_deltas_add_up_to_rounding [OF released_at_a_tenth(3) released_at_a_tenth(2) x y]
    by blast
  have y2: "y2 = lit 0.15" and y1: "y1 = lit 0.15000000000000002"
    using two one unfolding two_updates_from_a_tenth one_update_from_a_tenth by simp_all
  have "is_finite (lit 0.15) \<and> is_finite (lit 0.15000000000000002)
   \<and> \<bar>num_val (lit 0.15) - num_val (lit 0.15000000000000002)\<bar>
       \<le> (\<bar>num_val (lit 0.1)\<bar> + 1) / 2 ^ 51"
    using near last_bit_differs unfolding y2 y1 released_at_a_tenth(1) by simp
  then show ?thesis
    using released_at_a_tenth doubles_0_a_tenth two_updates_from_a_tenth one_update_from_a_tenth
    by simp
qed

theorem pan_deltas_counterexample:
  "map_option rotationRef
     (run [ContextCreate example_gl 1, PanUpdate (lit 10) (lit 0), PanEnd] initial_App)
     = Some \<lparr>pos_x = lit 0, pos_y = lit 0.1\<rparr>
   \<and> map_option lastPositionRef
       (run [ContextCreate example_gl 1, PanUpdate (lit 10) (lit 0), PanEnd] initial_App)
       = Some \<lparr>pos_x = lit 0, pos_y = lit 0\<rparr>
   \<and> Option.bind
       (run [ContextCreate example_gl 1, PanUpdate (lit 10) (lit 0), PanEnd,
             PanUpdate (lit 3) (lit 0), PanUpdate (lit 5) (lit 0)] initial_App)
       model_rotation = Some \<lparr>pos_x = lit 0, pos_y = lit 0.15\<rparr>
   \<and> Option.bind
       (run [ContextCreate example_gl 1, PanUpdate (lit 10) (lit 0), PanEnd,
             PanUpdate (lit 5) (lit 0)] initial_App)
       model_rotation = Some \<lparr>pos_x = lit 0, pos_y = lit 0.15000000000000002\<rparr>
   \<and> lit 0.15 \<noteq> lit 0.15000000000000002"
proof -
  let ?st = "panEnd (panUpdate (lit 10) (lit 0) started)"
  let ?st1 = "panUpdate (lit 3) (lit 0) ?st"
  have rot: "rotationRef ?st = \<lparr>pos_x = lit 0, pos_y = lit 0.1\<rparr>"
    and last: "lastPositionRef ?st = \<lparr>pos_x = lit 0, pos_y = lit 0\<rparr>"
    and attached: "objectRef ?st \<noteq> None"
    using panEnd_attached(1,3,4) [OF turned_a_tenth(2)] by simp_all
  have attached1: "objectRef ?st1 \<noteq> None"
    using attached by (rule panUpdate_attached(4))
  have one: "rotationRef (panUpdate (lit 5) (lit 0) ?st) =
               \<lparr>pos_x = lit 0, pos_y = lit 0.15000000000000002\<rparr>"
    by (simp add: panUpdate_attached(1) [OF attached] rot last pan_rest five_from_a_tenth)
  have first: "rotationRef ?st1 = \<lparr>pos_x = lit 0, pos_y = lit 0.13\<rparr>"
    and last1: "lastPositionRef ?st1 = \<lparr>pos_x = lit 3, pos_y = lit 0\<rparr>"
    by (simp_all add: panUpdate_attached(1,3) [OF attached] rot last pan_rest
        three_from_a_tenth)
  have two: "rotationRef (panUpdate (lit 5) (lit 0) ?st1) = \<lparr>pos_x = lit 0, pos_y = lit 0.15\<rparr>"
    by (simp add: panUpdate_attached(1) [OF attached1] first last1 pan_rest
        two_more_from_a_tenth)
  show ?thesis
    unfolding run_started
    using last_bit_differs
    by (simp add: rot last panUpdate_attached(2) [OF attached]
        panUpdate_attached(2) [OF attached1] one two)
qed

end
